theory Spec2Isabelle
  imports Complex_Main "HOL-Library.Sublist"
begin

section \<open>Strings of the runtime\<close>

text \<open>
  Strings are modelled as lists of characters, one \<^typ>\<open>char\<close> per UTF-16 code unit. A
  \<^typ>\<open>char\<close> is a code unit from 0 to 255, so the texts of the model are those of
  the Latin-1 range; on these the operations below are those of the runtime.
\<close>

definition NotSpecified :: string where
  "NotSpecified = ''Not specified''"

text \<open>\<open>String.prototype.endsWith\<close> and \<open>startsWith\<close> (with no position argument).\<close>

definition endsWith :: "string \<Rightarrow> string \<Rightarrow> bool" where
  "endsWith s suf =
     (length suf \<le> length s \<and> drop (length s - length suf) s = suf)"

definition startsWith :: "string \<Rightarrow> string \<Rightarrow> bool" where
  "startsWith s pre = (take (length pre) s = pre)"

text \<open>\<open>String.prototype.includes\<close>: the search string occurs at some position.\<close>

fun includes_str :: "string \<Rightarrow> string \<Rightarrow> bool" where
  "includes_str [] t = (t = [])"
| "includes_str (c # cs) t = (take (length t) (c # cs) = t \<or> includes_str cs t)"

text \<open>
  \<open>String.prototype.toLowerCase\<close>: below 256 the upper-case letters are \<open>A\<close> to \<open>Z\<close> (65
  to 90) and the accented capitals from 192 to 222 without the multiplication sign 215;
  the lower-case letter of each is 32 further.
\<close>

definition lower_char :: "char \<Rightarrow> char" where
  "lower_char c =
     (let n = (of_char c :: nat)
      in if (65 \<le> n \<and> n \<le> 90) \<or> (192 \<le> n \<and> n \<le> 222 \<and> n \<noteq> 215)
         then char_of (n + 32) else c)"

definition toLowerCase :: "string \<Rightarrow> string" where
  "toLowerCase s = map lower_char s"

text \<open>
  \<open>String.prototype.trim\<close> removes white space and line terminators at both ends: below
  256 these are the characters 9 to 13, the space 32 and the no-break space 160.
\<close>

definition is_ws :: "char \<Rightarrow> bool" where
  "is_ws c = ((of_char c :: nat) \<in> {9, 10, 11, 12, 13, 32, 160})"

definition trim :: "string \<Rightarrow> string" where
  "trim s = rev (dropWhile is_ws (rev (dropWhile is_ws s)))"

text \<open>\<open>Array.prototype.join\<close> on an array of strings.\<close>

fun join :: "string \<Rightarrow> string list \<Rightarrow> string" where
  "join sep [] = []"
| "join sep [x] = x"
| "join sep (x # y # ys) = x @ sep @ join sep (y # ys)"

section \<open>Source type of a link\<close>

text \<open>
  \<open>getSourceType\<close> (the same function in \<open>page.tsx\<close> and in the export button):
  \<^verbatim>\<open>
  if (!sourceLink) return "Not specified";
  if (sourceLink.endsWith(".pdf")) return "PDF";
  if (sourceLink.startsWith("https://www.tdlr.texas.gov/TABS/")) return "Texas";
  return "Website";
  \<close>
  A string is falsy exactly when it is empty.
\<close>

definition getSourceType :: "string \<Rightarrow> string" where
  "getSourceType sourceLink =
     (if sourceLink = [] then NotSpecified
      else if endsWith sourceLink ''.pdf'' then ''PDF''
      else if startsWith sourceLink ''https://www.tdlr.texas.gov/TABS/'' then ''Texas''
      else ''Website'')"

text \<open>
  \<open>String(n)\<close> for an integer \<open>n\<close> (an \<open>id\<close>, or a count): the decimal digits, with a
  minus sign for a negative number.
\<close>

definition digit_char :: "nat \<Rightarrow> char" where
  "digit_char d = char_of (48 + d)"

fun string_of_nat :: "nat \<Rightarrow> string" where
  "string_of_nat n =
     (if n < 10 then [digit_char n] else string_of_nat (n div 10) @ [digit_char (n mod 10)])"

declare string_of_nat.simps [simp del]

definition string_of_int :: "int \<Rightarrow> string" where
  "string_of_int i = (if i < 0 then CHR ''-'' # string_of_nat (nat (- i)) else string_of_nat (nat i))"

text \<open>
  The relational operator \<open><\<close> on two strings: lexicographic on the code units.
\<close>

fun str_less :: "string \<Rightarrow> string \<Rightarrow> bool" where
  "str_less [] [] = False"
| "str_less [] (y # ys) = True"
| "str_less (x # xs) [] = False"
| "str_less (x # xs) (y # ys) =
     ((of_char x :: nat) < of_char y \<or> (x = y \<and> str_less xs ys))"

section \<open>Project records and their field values\<close>

text \<open>
  The interface \<open>Project\<close> of \<open>page.tsx\<close> and of the export button: a numeric \<open>id\<close> and
  eight string fields. The objects come from the API route's \<open>SELECT\<close>, so their keys are
  in the order of the interface.
\<close>

record Project =
  id' :: int
  project_name :: string
  location :: string
  project_type :: string
  stage :: string
  stakeholders :: string
  project_value :: string
  date_added :: string
  source_link :: string

text \<open>\<open>SortField = keyof Project\<close> and \<open>SortDirection = "asc" | "desc"\<close>.\<close>

datatype SortField =
  K_id | K_project_name | K_location | K_project_type | K_stage | K_stakeholders
  | K_project_value | K_date_added | K_source_link

datatype SortDirection = Asc | Desc

text \<open>A field value is a number or a string.\<close>

datatype jsval = Num int | Str string

fun field :: "Project \<Rightarrow> SortField \<Rightarrow> jsval" where
  "field p K_id = Num (id' p)"
| "field p K_project_name = Str (project_name p)"
| "field p K_location = Str (location p)"
| "field p K_project_type = Str (project_type p)"
| "field p K_stage = Str (stage p)"
| "field p K_stakeholders = Str (stakeholders p)"
| "field p K_project_value = Str (project_value p)"
| "field p K_date_added = Str (date_added p)"
| "field p K_source_link = Str (source_link p)"

definition keys :: "SortField list" where
  "keys = [K_id, K_project_name, K_location, K_project_type, K_stage, K_stakeholders,
           K_project_value, K_date_added, K_source_link]"

text \<open>\<open>Object.values(project)\<close>.\<close>

definition object_values :: "Project \<Rightarrow> jsval list" where
  "object_values p = map (field p) keys"

text \<open>\<open>!v\<close>: zero and the empty string are falsy.\<close>

fun falsy :: "jsval \<Rightarrow> bool" where
  "falsy (Num n) = (n = 0)"
| "falsy (Str s) = (s = [])"

fun toString :: "jsval \<Rightarrow> string" where
  "toString (Num n) = string_of_int n"
| "toString (Str s) = s"

text \<open>\<open>s || "Not specified"\<close> on a string, and \<open>value || "Not specified"\<close> on a field value.\<close>

definition orNotSpecified :: "string \<Rightarrow> string" where
  "orNotSpecified s = (if s = [] then NotSpecified else s)"

definition valueOrNotSpecified :: "jsval \<Rightarrow> jsval" where
  "valueOrNotSpecified v = (if falsy v then Str NotSpecified else v)"

section \<open>View state\<close>

text \<open>The table state of \<open>Home\<close>: one \<open>useState\<close> cell per field.\<close>

record ViewState =
  searchTerm :: string
  sortField :: SortField
  sortDirection :: SortDirection
  currentPage :: int
  itemsPerPage :: int
  filterStage :: string
  filterType :: string
  filterSource :: string

definition initialState :: ViewState where
  "initialState =
     \<lparr>searchTerm = [], sortField = K_date_added, sortDirection = Desc, currentPage = 1,
      itemsPerPage = 25, filterStage = [], filterType = [], filterSource = []\<rparr>"

definition ITEMS_PER_PAGE_OPTIONS :: "int list" where
  "ITEMS_PER_PAGE_OPTIONS = [10, 25, 50, 100]"

section \<open>Filtering\<close>

text \<open>
  The predicate of \<open>projects.filter\<close> in \<open>filteredAndSortedProjects\<close>:
  \<^verbatim>\<open>
  const searchableValues = Object.values(project).map((value) => value || "Not specified");
  const matchesSearch = searchableValues.join(" ").toLowerCase()
                          .includes(searchTerm.toLowerCase());
  \<close>
  \<open>join\<close> turns every element into a string.
\<close>

definition searchableValues :: "Project \<Rightarrow> jsval list" where
  "searchableValues project = map valueOrNotSpecified (object_values project)"

definition matchesSearch :: "string \<Rightarrow> Project \<Rightarrow> bool" where
  "matchesSearch tm project =
     includes_str (toLowerCase (join '' '' (map toString (searchableValues project))))
       (toLowerCase tm)"

definition matchesStage :: "string \<Rightarrow> Project \<Rightarrow> bool" where
  "matchesStage fStage project = (fStage = [] \<or> orNotSpecified (stage project) = fStage)"

definition matchesType :: "string \<Rightarrow> Project \<Rightarrow> bool" where
  "matchesType fType project = (fType = [] \<or> orNotSpecified (project_type project) = fType)"

definition matchesSource :: "string \<Rightarrow> Project \<Rightarrow> bool" where
  "matchesSource fSource project =
     (fSource = [] \<or> getSourceType (source_link project) = fSource)"

definition passesFilter :: "ViewState \<Rightarrow> Project \<Rightarrow> bool" where
  "passesFilter S project =
     (matchesSearch (searchTerm S) project \<and> matchesStage (filterStage S) project
      \<and> matchesType (filterType S) project \<and> matchesSource (filterSource S) project)"

section \<open>Sorting\<close>

text \<open>
  The test for a value that goes to the end, written twice in the comparator:
  \<^verbatim>\<open>!aVal || aVal === "Not specified" || aVal.toString().trim() === ""\<close>
  (the date branch adds comparisons with \<open>null\<close> and \<open>undefined\<close>, which a value that
  passed \<open>!aVal\<close> is not).
\<close>

definition isNotSpecified :: "jsval \<Rightarrow> bool" where
  "isNotSpecified v = (falsy v \<or> v = Str NotSpecified \<or> trim (toString v) = [])"

text \<open>
  \<open>aVal < bVal\<close>. Both values come from the same field, so they are two numbers or two
  strings; a number against a text that is no numeral compares false in both directions.
\<close>

fun js_less :: "jsval \<Rightarrow> jsval \<Rightarrow> bool" where
  "js_less (Num a) (Num b) = (a < b)"
| "js_less (Str a) (Str b) = str_less a b"
| "js_less _ _ = False"

text \<open>
  The comparator from the line \<open>// Handle other fields - put "Not specified" at the end\<close>
  on: both dates (as time stamps) and all other fields go through it.
  \<^verbatim>\<open>
  if (aIsNotSpecified && bIsNotSpecified) return 0;
  if (aIsNotSpecified) return sortDirection === "asc" ? 1 : -1;
  if (bIsNotSpecified) return sortDirection === "asc" ? -1 : 1;
  if (typeof aVal === "string" && typeof bVal === "string") { lower both }
  if (aVal < bVal) return sortDirection === "asc" ? -1 : 1;
  if (aVal > bVal) return sortDirection === "asc" ? 1 : -1;
  return 0;
  \<close>
\<close>

definition compareValues :: "SortDirection \<Rightarrow> jsval \<Rightarrow> jsval \<Rightarrow> int" where
  "compareValues dir aVal bVal =
     (let aIsNotSpecified = isNotSpecified aVal;
          bIsNotSpecified = isNotSpecified bVal
      in if aIsNotSpecified \<and> bIsNotSpecified then 0
         else if aIsNotSpecified then (if dir = Asc then 1 else - 1)
         else if bIsNotSpecified then (if dir = Asc then - 1 else 1)
         else
           (let (a, b) =
              (case (aVal, bVal) of
                 (Str x, Str y) \<Rightarrow> (Str (toLowerCase x), Str (toLowerCase y))
               | _ \<Rightarrow> (aVal, bVal))
            in if js_less a b then (if dir = Asc then - 1 else 1)
               else if js_less b a then (if dir = Asc then 1 else - 1)
               else 0))"

text \<open>
  The whole comparator. \<open>parseDate s\<close> stands for \<open>new Date(s).getTime()\<close>: \<open>None\<close> when
  the time is \<open>NaN\<close> (an invalid date), the time stamp in milliseconds otherwise. Which
  texts parse is left to the runtime, so \<open>parseDate\<close> is a parameter.
\<close>

definition compareProjects ::
  "(string \<Rightarrow> int option) \<Rightarrow> SortField \<Rightarrow> SortDirection \<Rightarrow> Project \<Rightarrow> Project \<Rightarrow> int" where
  "compareProjects parseDate sField dir a b =
     (let aVal = field a sField; bVal = field b sField
      in if sField = K_date_added then
           (let aIsNotSpecified = isNotSpecified aVal;
                bIsNotSpecified = isNotSpecified bVal
            in if aIsNotSpecified \<and> bIsNotSpecified then 0
               else if aIsNotSpecified then 1
               else if bIsNotSpecified then - 1
               else
                 (case (parseDate (toString aVal), parseDate (toString bVal)) of
                    (None, None) \<Rightarrow> 0
                  | (None, Some tb) \<Rightarrow> 1
                  | (Some ta, None) \<Rightarrow> - 1
                  | (Some ta, Some tb) \<Rightarrow> compareValues dir (Num ta) (Num tb)))
         else compareValues dir aVal bVal)"

text \<open>
  \<open>Array.prototype.sort\<close> with a comparator is stable; it is modelled as the stable
  insertion sort: an element moves behind the elements it compares greater than.
\<close>

fun insert_by :: "('a \<Rightarrow> 'a \<Rightarrow> int) \<Rightarrow> 'a \<Rightarrow> 'a list \<Rightarrow> 'a list" where
  "insert_by cmp x [] = [x]"
| "insert_by cmp x (y # ys) = (if cmp x y \<le> 0 then x # y # ys else y # insert_by cmp x ys)"

definition sort_by :: "('a \<Rightarrow> 'a \<Rightarrow> int) \<Rightarrow> 'a list \<Rightarrow> 'a list" where
  "sort_by cmp xs = foldr (insert_by cmp) xs []"

definition filteredAndSortedProjects ::
  "(string \<Rightarrow> int option) \<Rightarrow> Project list \<Rightarrow> ViewState \<Rightarrow> Project list" where
  "filteredAndSortedProjects parseDate projects S =
     sort_by (compareProjects parseDate (sortField S) (sortDirection S))
       (filter (passesFilter S) projects)"

section \<open>Pagination\<close>

text \<open>
  \<open>Math.ceil(filteredAndSortedProjects.length / itemsPerPage)\<close>. The quotient of a length
  by a page size is computed exactly enough for its ceiling to be the ceiling of the
  rational quotient. A page size is never zero: it starts as 25 and is set from the
  options only.
\<close>

definition totalPages :: "'a list \<Rightarrow> int \<Rightarrow> int" where
  "totalPages rows perPage = \<lceil>real (length rows) / real_of_int perPage\<rceil>"

text \<open>
  \<open>Array.prototype.slice(start, end)\<close>: a negative index counts from the end, and both
  indices are clamped to the array.
\<close>

definition slice :: "'a list \<Rightarrow> int \<Rightarrow> int \<Rightarrow> 'a list" where
  "slice xs start fin =
     (let len = int (length xs);
          k = (if start < 0 then max (len + start) 0 else min start len);
          final = (if fin < 0 then max (len + fin) 0 else min fin len)
      in take (nat (final - k)) (drop (nat k) xs))"

definition startIndex :: "ViewState \<Rightarrow> int" where
  "startIndex S = (currentPage S - 1) * itemsPerPage S"

definition paginatedProjects :: "Project list \<Rightarrow> ViewState \<Rightarrow> Project list" where
  "paginatedProjects rows S = slice rows (startIndex S) (startIndex S + itemsPerPage S)"

section \<open>Transitions of the view state\<close>

text \<open>The handlers \<open>handleSort\<close>, \<open>handleSearch\<close>, \<open>handleFilter\<close> and \<open>clearFilters\<close>.\<close>

definition handleSort :: "SortField \<Rightarrow> ViewState \<Rightarrow> ViewState" where
  "handleSort fld S =
     (if fld = sortField S
      then S\<lparr>sortDirection := (if sortDirection S = Asc then Desc else Asc)\<rparr>
      else S\<lparr>sortField := fld, sortDirection := Asc\<rparr>)
     \<lparr>currentPage := 1\<rparr>"

definition handleSearch :: "string \<Rightarrow> ViewState \<Rightarrow> ViewState" where
  "handleSearch v S = S\<lparr>searchTerm := v, currentPage := 1\<rparr>"

datatype FilterKind = FStage | FType | FSource

fun handleFilter :: "FilterKind \<Rightarrow> string \<Rightarrow> ViewState \<Rightarrow> ViewState" where
  "handleFilter FStage v S = S\<lparr>filterStage := v, currentPage := 1\<rparr>"
| "handleFilter FType v S = S\<lparr>filterType := v, currentPage := 1\<rparr>"
| "handleFilter FSource v S = S\<lparr>filterSource := v, currentPage := 1\<rparr>"

definition clearFilters :: "ViewState \<Rightarrow> ViewState" where
  "clearFilters S =
     S\<lparr>searchTerm := [], filterStage := [], filterType := [], filterSource := [],
       currentPage := 1\<rparr>"

text \<open>
  The \<open>onChange\<close> of the page-size select:
  \<open>setItemsPerPage(Number(e.target.value)); setCurrentPage(1)\<close>.
\<close>

definition changeItemsPerPage :: "int \<Rightarrow> ViewState \<Rightarrow> ViewState" where
  "changeItemsPerPage n S = S\<lparr>itemsPerPage := n, currentPage := 1\<rparr>"

text \<open>
  Every event of the table. The page-size select and the four page buttons are rendered
  only when \<open>totalPages > 1\<close>; the select offers the options only; the first and previous
  buttons are disabled on page 1, the next and last buttons on the last page. An event
  that cannot be fired leaves the state as it is.
\<close>

datatype Event =
  Sort SortField | Search string | Filter FilterKind string | ClearFilters
  | PageSize int | FirstPage | PrevPage | NextPage | LastPage

definition pages :: "(string \<Rightarrow> int option) \<Rightarrow> Project list \<Rightarrow> ViewState \<Rightarrow> int" where
  "pages parseDate projects S =
     totalPages (filteredAndSortedProjects parseDate projects S) (itemsPerPage S)"

fun step :: "(string \<Rightarrow> int option) \<Rightarrow> Project list \<Rightarrow> ViewState \<Rightarrow> Event \<Rightarrow> ViewState" where
  "step pd ps S (Sort fld) = handleSort fld S"
| "step pd ps S (Search v) = handleSearch v S"
| "step pd ps S (Filter k v) = handleFilter k v S"
| "step pd ps S ClearFilters = clearFilters S"
| "step pd ps S (PageSize n) =
     (if pages pd ps S > 1 \<and> n \<in> set ITEMS_PER_PAGE_OPTIONS then changeItemsPerPage n S else S)"
| "step pd ps S FirstPage =
     (if pages pd ps S > 1 \<and> currentPage S \<noteq> 1 then S\<lparr>currentPage := 1\<rparr> else S)"
| "step pd ps S PrevPage =
     (if pages pd ps S > 1 \<and> currentPage S \<noteq> 1
      then S\<lparr>currentPage := currentPage S - 1\<rparr> else S)"
| "step pd ps S NextPage =
     (if pages pd ps S > 1 \<and> currentPage S \<noteq> pages pd ps S
      then S\<lparr>currentPage := currentPage S + 1\<rparr> else S)"
| "step pd ps S LastPage =
     (if pages pd ps S > 1 \<and> currentPage S \<noteq> pages pd ps S
      then S\<lparr>currentPage := pages pd ps S\<rparr> else S)"

text \<open>
  The states the page can be in: the initial one, and every state an event leads to,
  whatever the project list is at that moment (a refresh may replace it).
\<close>

inductive reachable :: "(string \<Rightarrow> int option) \<Rightarrow> ViewState \<Rightarrow> bool"
  for pd :: "string \<Rightarrow> int option" where
  reachable_init: "reachable pd initialState"
| reachable_step: "reachable pd S \<Longrightarrow> reachable pd (step pd ps S e)"

text \<open>
  For examples: a project with the given id and name and nothing else, and a project with
  the given id and location and every other field filled.
\<close>

definition example_project :: "int \<Rightarrow> string \<Rightarrow> Project" where
  "example_project i name =
     \<lparr>id' = i, project_name = name, location = [], project_type = [], stage = [],
      stakeholders = [], project_value = [], date_added = [], source_link = []\<rparr>"

definition filled_project :: "int \<Rightarrow> string \<Rightarrow> Project" where
  "filled_project i loc =
     \<lparr>id' = i, project_name = ''Alpha'', location = loc, project_type = ''Road'',
      stage = ''Approved'', stakeholders = ''Acme'', project_value = ''100'',
      date_added = ''2024-01-05'', source_link = ''https://example.org/a''\<rparr>"

section \<open>The specification's wording of the search condition and of a missing value\<close>

text \<open>
  The sentinel rule of the specification's data model: a text field that is empty or
  white space only stands for "Not specified".
\<close>

definition spec_sentinel :: "string \<Rightarrow> string" where
  "spec_sentinel s = (if trim s = [] then NotSpecified else s)"

text \<open>
  The search condition as the specification words it: the lower-cased concatenation of
  the string value of every field, the text fields sentinel-substituted, contains the
  lower-cased search term.
\<close>

definition spec_values :: "Project \<Rightarrow> string list" where
  "spec_values p =
     [string_of_int (id' p), spec_sentinel (project_name p), spec_sentinel (location p),
      spec_sentinel (project_type p), spec_sentinel (stage p), spec_sentinel (stakeholders p),
      spec_sentinel (project_value p), spec_sentinel (date_added p),
      spec_sentinel (source_link p)]"

definition spec_matchesSearch :: "string \<Rightarrow> Project \<Rightarrow> bool" where
  "spec_matchesSearch tm project =
     includes_str (toLowerCase (concat (spec_values project))) (toLowerCase tm)"

text \<open>
  A missing sort value as the specification words it: empty, white space only or the
  sentinel, or, for \<open>date_added\<close>, a text that does not parse as a date.
\<close>

definition spec_missing :: "(string \<Rightarrow> int option) \<Rightarrow> SortField \<Rightarrow> Project \<Rightarrow> bool" where
  "spec_missing parseDate k p =
     (case field p k of
        Num n \<Rightarrow> False
      | Str s \<Rightarrow> s = [] \<or> trim s = [] \<or> s = NotSpecified
                 \<or> (k = K_date_added \<and> parseDate s = None))"

section \<open>Export\<close>

text \<open>
  The date cell of the CSV and HTML exports (the same expression in both):
  \<^verbatim>\<open>
  if (!project.date_added || project.date_added.trim() === "") return "Not specified";
  const date = new Date(project.date_added);
  if (isNaN(date.getTime())) return "Not specified";
  return date.toLocaleDateString();
  \<close>
  \<open>toLocaleDateString\<close> depends on the locale of the browser and is a parameter, as
  \<open>parseDate\<close> is.
\<close>

definition dateCell :: "(string \<Rightarrow> int option) \<Rightarrow> (int \<Rightarrow> string) \<Rightarrow> string \<Rightarrow> string" where
  "dateCell parseDate toLocaleDateString d =
     (if d = [] \<or> trim d = [] then NotSpecified
      else case parseDate d of
             None \<Rightarrow> NotSpecified
           | Some t \<Rightarrow> toLocaleDateString t)"

subsection \<open>CSV\<close>

definition dq :: char where
  "dq = CHR 0x22"

definition newline :: string where
  "newline = [CHR 0x0A]"

text \<open>\<open>.replace(/"/g, '""')\<close>: every double quote is doubled.\<close>

fun replace_quotes :: "string \<Rightarrow> string" where
  "replace_quotes [] = []"
| "replace_quotes (c # cs) = (if c = dq then dq # dq # replace_quotes cs else c # replace_quotes cs)"

text \<open>The template \<open>"${(s || "Not specified").replace(/"/g, '""')}"\<close>.\<close>

definition csv_quote :: "string \<Rightarrow> string" where
  "csv_quote s = [dq] @ replace_quotes (orNotSpecified s) @ [dq]"

definition csv_headers :: "string list" where
  "csv_headers =
     [''ID'', ''Project Name'', ''Location'', ''Project Type'', ''Stage'', ''Stakeholders'',
      ''Project Value'', ''Source Link'', ''Date Added'']"

definition csv_row :: "(string \<Rightarrow> int option) \<Rightarrow> (int \<Rightarrow> string) \<Rightarrow> Project \<Rightarrow> string" where
  "csv_row parseDate toLocaleDateString project =
     join '',''
       [string_of_int (id' project),
        csv_quote (project_name project),
        csv_quote (location project),
        csv_quote (project_type project),
        csv_quote (stage project),
        csv_quote (stakeholders project),
        csv_quote (project_value project),
        csv_quote (source_link project),
        dateCell parseDate toLocaleDateString (date_added project)]"

definition convertToCSV ::
  "(string \<Rightarrow> int option) \<Rightarrow> (int \<Rightarrow> string) \<Rightarrow> Project list \<Rightarrow> string" where
  "convertToCSV parseDate toLocaleDateString data =
     join newline (join '','' csv_headers # map (csv_row parseDate toLocaleDateString) data)"

subsection \<open>HTML\<close>

text \<open>
  The table of \<open>exportToPrintableHTML\<close>: the header row of the template and one body
  row per project, with the white space of the template. \<open>sp n\<close> is an indentation of
  \<open>n\<close> spaces.
\<close>

definition sp :: "nat \<Rightarrow> string" where
  "sp n = replicate n (CHR '' '')"

definition html_headers :: "string list" where
  "html_headers =
     [''Project Name'', ''Location'', ''Type'', ''Stage'', ''Stakeholders'', ''Project Value'',
      ''Source Link'', ''Date Added'']"

definition html_head_row :: string where
  "html_head_row =
     sp 12 @ ''<tr>'' @ newline
     @ concat (map (\<lambda>h. sp 16 @ ''<th>'' @ h @ ''</th>'' @ newline) html_headers)
     @ sp 12 @ ''</tr>'' @ newline"

text \<open>
  The class of the stage badge: \<open>(project.stage || "").toLowerCase().includes(...)\<close>.
\<close>

definition stage_class :: "string \<Rightarrow> string" where
  "stage_class s =
     (if includes_str (toLowerCase s) ''approved'' then ''stage-approved''
      else if includes_str (toLowerCase s) ''proposed'' then ''stage-proposed''
      else ''stage-default'')"

definition stage_cell :: "string \<Rightarrow> string" where
  "stage_cell s =
     newline @ sp 24 @ ''<span class='' @ [dq] @ stage_class s @ [dq] @ ''>'' @ newline
     @ sp 28 @ orNotSpecified s @ newline
     @ sp 24 @ ''</span>'' @ newline @ sp 20"

definition source_cell :: "string \<Rightarrow> string" where
  "source_cell link =
     newline @ sp 24
     @ (if link \<noteq> []
        then ''<a href='' @ [dq] @ link @ [dq] @ '' class='' @ [dq] @ ''source-link'' @ [dq]
             @ '' target='' @ [dq] @ ''_blank'' @ [dq] @ ''>'' @ getSourceType link @ ''</a>''
        else NotSpecified)
     @ newline @ sp 20"

text \<open>The contents of the \<open>td\<close> elements of one body row, in the order of the template.\<close>

definition html_row_cells ::
  "(string \<Rightarrow> int option) \<Rightarrow> (int \<Rightarrow> string) \<Rightarrow> Project \<Rightarrow> string list" where
  "html_row_cells parseDate toLocaleDateString project =
     [string_of_int (id' project),
      orNotSpecified (project_name project),
      orNotSpecified (location project),
      orNotSpecified (project_type project),
      stage_cell (stage project),
      orNotSpecified (stakeholders project),
      orNotSpecified (project_value project),
      source_cell (source_link project),
      dateCell parseDate toLocaleDateString (date_added project)]"

definition html_row :: "(string \<Rightarrow> int option) \<Rightarrow> (int \<Rightarrow> string) \<Rightarrow> Project \<Rightarrow> string" where
  "html_row parseDate toLocaleDateString project =
     newline @ sp 16 @ ''<tr>'' @ newline
     @ concat (map (\<lambda>c. sp 20 @ ''<td>'' @ c @ ''</td>'' @ newline)
         (html_row_cells parseDate toLocaleDateString project))
     @ sp 16 @ ''</tr>'' @ newline @ sp 12"

definition html_table ::
  "(string \<Rightarrow> int option) \<Rightarrow> (int \<Rightarrow> string) \<Rightarrow> Project list \<Rightarrow> string" where
  "html_table parseDate toLocaleDateString data =
     sp 4 @ ''<table>'' @ newline
     @ sp 8 @ ''<thead>'' @ newline
     @ html_head_row
     @ sp 8 @ ''</thead>'' @ newline
     @ sp 8 @ ''<tbody>'' @ newline
     @ sp 12 @ concat (map (html_row parseDate toLocaleDateString) data) @ newline
     @ sp 8 @ ''</tbody>'' @ newline
     @ sp 4 @ ''</table>''"

text \<open>The number of positions of a text at which a given text starts.\<close>

fun occurrences :: "string \<Rightarrow> string \<Rightarrow> nat" where
  "occurrences t [] = 0"
| "occurrences t (c # cs) =
     (if take (length t) (c # cs) = t then 1 else 0) + occurrences t cs"

subsection \<open>JSON\<close>

text \<open>
  The JSON export is \<open>JSON.stringify(data, null, 2)\<close>. \<open>JSON.stringify\<close> and
  \<open>JSON.parse\<close> belong to the runtime; they are modelled after their definition in the
  language standard. A value is \<open>null\<close>, a boolean, a number (the ids are integers), a
  string, an array or an object with its members in order.
\<close>

datatype json =
  JNull | JBool bool | JNum int | JStr string | JArr "json list" | JObj "(string \<times> json) list"

text \<open>
  \<open>QuoteJSONString\<close>: the double quote and the backslash are escaped, the control
  characters are written as the short escapes for backspace, tab, line feed, form feed
  and carriage return or as \<open>u00XX\<close> after a backslash, with lower-case hexadecimal
  digits, and every other character is copied.
\<close>

definition backslash :: char where
  "backslash = CHR 0x5C"

definition hex_digit :: "nat \<Rightarrow> char" where
  "hex_digit d = (if d < 10 then char_of (48 + d) else char_of (87 + d))"

definition escape_char :: "char \<Rightarrow> string" where
  "escape_char c =
     (let n = (of_char c :: nat)
      in if n = 8 then [backslash, CHR ''b'']
         else if n = 9 then [backslash, CHR ''t'']
         else if n = 10 then [backslash, CHR ''n'']
         else if n = 12 then [backslash, CHR ''f'']
         else if n = 13 then [backslash, CHR ''r'']
         else if n = 34 then [backslash, dq]
         else if n = 92 then [backslash, backslash]
         else if n < 32 then
           [backslash, CHR ''u'', CHR ''0'', CHR ''0'', hex_digit (n div 16), hex_digit (n mod 16)]
         else [c])"

definition QuoteJSONString :: "string \<Rightarrow> string" where
  "QuoteJSONString s = [dq] @ concat (map escape_char s) @ [dq]"

text \<open>
  \<open>SerializeJSONProperty\<close> with a gap of two spaces: an empty array is \<open>[]\<close> and an
  empty object \<open>{}\<close>; otherwise every element stands on a line of its own, indented one
  gap more than the brackets around it, and a member is its quoted key, a colon, a space
  and its value.
\<close>

definition gap :: string where
  "gap = ''  ''"

fun stringify :: "string \<Rightarrow> json \<Rightarrow> string" where
  "stringify ind JNull = ''null''"
| "stringify ind (JBool b) = (if b then ''true'' else ''false'')"
| "stringify ind (JNum n) = string_of_int n"
| "stringify ind (JStr s) = QuoteJSONString s"
| "stringify ind (JArr vs) =
     (if vs = [] then ''[]''
      else ''['' @ newline @ (ind @ gap)
           @ join ('','' @ newline @ (ind @ gap)) (map (stringify (ind @ gap)) vs)
           @ newline @ ind @ '']'')"
| "stringify ind (JObj ms) =
     (if ms = [] then ''{}''
      else ''{'' @ newline @ (ind @ gap)
           @ join ('','' @ newline @ (ind @ gap))
               (map (\<lambda>(k, v). QuoteJSONString k @ '': '' @ stringify (ind @ gap) v) ms)
           @ newline @ ind @ ''}'')"

text \<open>
  The object a project is at run time, with the keys in the order of the interface, and
  the text \<open>exportToJSON\<close> hands to the download.
\<close>

definition project_json :: "Project \<Rightarrow> json" where
  "project_json p =
     JObj [(''id'', JNum (id' p)),
           (''project_name'', JStr (project_name p)),
           (''location'', JStr (location p)),
           (''project_type'', JStr (project_type p)),
           (''stage'', JStr (stage p)),
           (''stakeholders'', JStr (stakeholders p)),
           (''project_value'', JStr (project_value p)),
           (''date_added'', JStr (date_added p)),
           (''source_link'', JStr (source_link p))]"

definition exportToJSON :: "Project list \<Rightarrow> string" where
  "exportToJSON data = stringify [] (JArr (map project_json data))"

text \<open>
  \<open>JSON.parse\<close>, as a lexer and a parser of the token list. A \<open>SyntaxError\<close> is \<open>None\<close>.
  The model reads integers only, characters up to code 255, and values nested no deeper
  than an array of objects of scalars, which is what a list of projects is; on any other
  text it gives \<open>None\<close> as well.
\<close>

datatype token =
  TLBrack | TRBrack | TLBrace | TRBrace | TComma | TColon
  | TString string | TNumber int | TNull | TTrue | TFalse

definition hex_value :: "char \<Rightarrow> nat option" where
  "hex_value c =
     (let n = (of_char c :: nat)
      in if 48 \<le> n \<and> n \<le> 57 then Some (n - 48)
         else if 97 \<le> n \<and> n \<le> 102 then Some (n - 87)
         else if 65 \<le> n \<and> n \<le> 70 then Some (n - 55)
         else None)"

definition unescape :: "char \<Rightarrow> char option" where
  "unescape e =
     (let n = (of_char e :: nat)
      in if n = 34 \<or> n = 92 \<or> n = 47 then Some e
         else if n = 98 then Some (char_of (8 :: nat))
         else if n = 102 then Some (char_of (12 :: nat))
         else if n = 110 then Some (char_of (10 :: nat))
         else if n = 114 then Some (char_of (13 :: nat))
         else if n = 116 then Some (char_of (9 :: nat))
         else None)"

fun lex_string :: "string \<Rightarrow> (string \<times> string) option" where
  "lex_string [] = None"
| "lex_string (c # cs) =
     (if (of_char c :: nat) = 34 then Some ([], cs)
      else if (of_char c :: nat) = 92 then
        (case cs of
           [] \<Rightarrow> None
         | e # cs' \<Rightarrow>
             if (of_char e :: nat) = 117 then
               (case cs' of
                  a # b # x # y # cs'' \<Rightarrow>
                    (case (hex_value a, hex_value b, hex_value x, hex_value y) of
                       (Some 0, Some 0, Some h, Some l) \<Rightarrow>
                         map_option (\<lambda>(s, r). (char_of (16 * h + l) # s, r)) (lex_string cs'')
                     | _ \<Rightarrow> None)
                | _ \<Rightarrow> None)
             else
               (case unescape e of
                  None \<Rightarrow> None
                | Some ch \<Rightarrow> map_option (\<lambda>(s, r). (ch # s, r)) (lex_string cs')))
      else if (of_char c :: nat) < 32 then None
      else map_option (\<lambda>(s, r). (c # s, r)) (lex_string cs))"

definition is_digit :: "char \<Rightarrow> bool" where
  "is_digit c = (48 \<le> (of_char c :: nat) \<and> (of_char c :: nat) \<le> 57)"

definition nat_of_digits :: "string \<Rightarrow> nat" where
  "nat_of_digits ds = foldl (\<lambda>a c. 10 * a + (of_char c - 48)) 0 ds"

definition lex_number :: "string \<Rightarrow> (int \<times> string) option" where
  "lex_number s =
     (let neg = (s \<noteq> [] \<and> hd s = CHR ''-'');
          body = (if neg then tl s else s);
          ds = takeWhile is_digit body;
          r = dropWhile is_digit body
      in if ds = [] \<or> (1 < length ds \<and> hd ds = CHR ''0'')
            \<or> (r \<noteq> [] \<and> hd r \<in> {CHR ''.'', CHR ''e'', CHR ''E''})
            \<or> (neg \<and> nat_of_digits ds = 0)
         then None
         else Some (if neg then - int (nat_of_digits ds) else int (nat_of_digits ds), r))"

definition json_ws :: "char \<Rightarrow> bool" where
  "json_ws c = ((of_char c :: nat) \<in> {9, 10, 13, 32})"

text \<open>Every token takes at least one character, so the lexer terminates.\<close>

lemma map_option_pair_eq:
  "map_option (\<lambda>(s, r). (g s, r)) x = Some (s', r') \<longleftrightarrow> (\<exists>s. x = Some (s, r') \<and> s' = g s)"
  by (cases x) auto

lemma lex_string_length: "lex_string cs = Some (s, r) \<Longrightarrow> length r < length cs"
proof (induction "length cs" arbitrary: cs s r rule: less_induct)
  case less
  show ?case
  proof (cases cs)
    case Nil
    with less.prems show ?thesis by simp
  next
    case (Cons c cs1)
    with less.prems less.hyps show ?thesis
      by (auto simp: map_option_pair_eq split: if_splits list.splits option.splits nat.splits)
         (blast intro: less_SucI lessI)+
  qed
qed

lemma lex_number_length: "lex_number (c # cs) = Some (n, r) \<Longrightarrow> length r \<le> length cs"
  by (auto simp: lex_number_def Let_def length_dropWhile_le split: if_splits)

definition punctuation :: "char \<Rightarrow> token option" where
  "punctuation c =
     (if c = CHR ''['' then Some TLBrack
      else if c = CHR '']'' then Some TRBrack
      else if c = CHR ''{'' then Some TLBrace
      else if c = CHR ''}'' then Some TRBrace
      else if c = CHR '','' then Some TComma
      else if c = CHR '':'' then Some TColon
      else None)"

definition keyword :: "string \<Rightarrow> (token \<times> string) option" where
  "keyword s =
     (if startsWith s ''null'' then Some (TNull, drop 4 s)
      else if startsWith s ''true'' then Some (TTrue, drop 4 s)
      else if startsWith s ''false'' then Some (TFalse, drop 5 s)
      else None)"

definition next_token :: "char \<Rightarrow> string \<Rightarrow> (token \<times> string) option" where
  "next_token c cs =
     (case punctuation c of
        Some t \<Rightarrow> Some (t, cs)
      | None \<Rightarrow>
          if c = dq then map_option (\<lambda>(s, r). (TString s, r)) (lex_string cs)
          else if c = CHR ''-'' \<or> is_digit c
            then map_option (\<lambda>(n, r). (TNumber n, r)) (lex_number (c # cs))
          else keyword (c # cs))"

lemma keyword_length: "keyword (c # cs) = Some (t, r) \<Longrightarrow> length r \<le> length cs"
  unfolding keyword_def by (auto split: if_splits)

lemma next_token_length:
  assumes "next_token c cs = Some (t, r)"
  shows "length r \<le> length cs"
proof (cases "punctuation c")
  case (Some p)
  with assms show ?thesis
    by (simp add: next_token_def)
next
  case None
  with assms show ?thesis
    by (auto simp: next_token_def split: if_splits
        dest: lex_string_length lex_number_length keyword_length less_imp_le)
qed

function lex :: "string \<Rightarrow> token list option" where
  "lex s =
     (case dropWhile json_ws s of
        [] \<Rightarrow> Some []
      | c # cs \<Rightarrow>
          (case next_token c cs of
             None \<Rightarrow> None
           | Some (t, r) \<Rightarrow> map_option (Cons t) (lex r)))"
  by pat_completeness auto
termination
proof (relation "measure length")
  show "wf (measure length)"
    by simp
next
  fix s :: string and c cs x t r
  assume d: "dropWhile json_ws s = c # cs" and n: "next_token c cs = Some x" and x: "(t, r) = x"
  have "length r \<le> length cs"
    using n x next_token_length by metis
  moreover have "length (c # cs) \<le> length s"
    using d length_dropWhile_le by metis
  ultimately show "(r, s) \<in> measure length"
    by simp
qed

declare lex.simps [simp del]

text \<open>
  The parser: a scalar is one token; the members of an object are \<open>key : scalar\<close>
  separated by commas up to the closing brace; the elements of an array are scalars or
  objects separated by commas up to the closing bracket.
\<close>

fun parse_scalar :: "token \<Rightarrow> json option" where
  "parse_scalar (TString s) = Some (JStr s)"
| "parse_scalar (TNumber n) = Some (JNum n)"
| "parse_scalar TNull = Some JNull"
| "parse_scalar TTrue = Some (JBool True)"
| "parse_scalar TFalse = Some (JBool False)"
| "parse_scalar _ = None"

fun parse_members :: "token list \<Rightarrow> ((string \<times> json) list \<times> token list) option" where
  "parse_members (t1 # t2 # t3 # sep # rest) =
     (case (t1, parse_scalar t3) of
        (TString k, Some v) \<Rightarrow>
          if t2 \<noteq> TColon then None
          else if sep = TComma then map_option (\<lambda>(ms, r). ((k, v) # ms, r)) (parse_members rest)
          else if sep = TRBrace then Some ([(k, v)], rest)
          else None
      | _ \<Rightarrow> None)"
| "parse_members _ = None"

definition parse_element :: "token list \<Rightarrow> (json \<times> token list) option" where
  "parse_element ts =
     (case ts of
        [] \<Rightarrow> None
      | t # rest \<Rightarrow>
          if t = TLBrace then
            (if rest \<noteq> [] \<and> hd rest = TRBrace then Some (JObj [], tl rest)
             else map_option (\<lambda>(ms, r). (JObj ms, r)) (parse_members rest))
          else map_option (\<lambda>v. (v, rest)) (parse_scalar t))"

lemma parse_members_length: "parse_members ts = Some (ms, r) \<Longrightarrow> length r < length ts"
proof (induction ts arbitrary: ms r rule: parse_members.induct)
  case (1 t1 t2 t3 sep rest)
  then show ?case
    by (auto simp: map_option_pair_eq split: option.splits if_splits token.splits)
       (blast intro: less_SucI)
qed simp_all

lemma parse_element_length: "parse_element ts = Some (v, r) \<Longrightarrow> length r < length ts"
  unfolding parse_element_def
  by (cases ts)
     (auto simp: map_option_pair_eq split: if_splits
       dest!: parse_members_length intro: less_SucI)

function parse_elements :: "token list \<Rightarrow> (json list \<times> token list) option" where
  "parse_elements ts =
     (case parse_element ts of
        None \<Rightarrow> None
      | Some (v, r) \<Rightarrow>
          (case r of
             [] \<Rightarrow> None
           | t # r' \<Rightarrow>
               if t = TComma then map_option (\<lambda>(vs, r''). (v # vs, r'')) (parse_elements r')
               else if t = TRBrack then Some ([v], r')
               else None))"
  by pat_completeness auto
termination
proof (relation "measure length")
  show "wf (measure length)"
    by simp
next
  fix ts :: "token list" and x v r t r'
  assume "parse_element ts = Some x" and "(v, r) = x" and "r = t # r'" and "t = TComma"
  then have "length (t # r') < length ts"
    using parse_element_length by metis
  then show "(r', ts) \<in> measure length"
    by simp
qed

declare parse_elements.simps [simp del]

definition parse_value :: "token list \<Rightarrow> (json \<times> token list) option" where
  "parse_value ts =
     (if ts \<noteq> [] \<and> hd ts = TLBrack then
        (if tl ts \<noteq> [] \<and> hd (tl ts) = TRBrack then Some (JArr [], tl (tl ts))
         else map_option (\<lambda>(vs, r). (JArr vs, r)) (parse_elements (tl ts)))
      else parse_element ts)"

definition JSON_parse :: "string \<Rightarrow> json option" where
  "JSON_parse s =
     (case lex s of
        None \<Rightarrow> None
      | Some ts \<Rightarrow> (case parse_value ts of Some (v, []) \<Rightarrow> Some v | _ \<Rightarrow> None))"

text \<open>Reading the fields of a parsed object as a \<open>Project\<close>.\<close>

fun get_number :: "(string \<times> json) list \<Rightarrow> string \<Rightarrow> int option" where
  "get_number ms k = (case map_of ms k of Some (JNum n) \<Rightarrow> Some n | _ \<Rightarrow> None)"

fun get_string :: "(string \<times> json) list \<Rightarrow> string \<Rightarrow> string option" where
  "get_string ms k = (case map_of ms k of Some (JStr s) \<Rightarrow> Some s | _ \<Rightarrow> None)"

fun project_of_json :: "json \<Rightarrow> Project option" where
  "project_of_json (JObj ms) =
     Option.bind (get_number ms ''id'') (\<lambda>i.
     Option.bind (get_string ms ''project_name'') (\<lambda>a.
     Option.bind (get_string ms ''location'') (\<lambda>b.
     Option.bind (get_string ms ''project_type'') (\<lambda>c.
     Option.bind (get_string ms ''stage'') (\<lambda>d.
     Option.bind (get_string ms ''stakeholders'') (\<lambda>e.
     Option.bind (get_string ms ''project_value'') (\<lambda>f.
     Option.bind (get_string ms ''date_added'') (\<lambda>g.
     Option.bind (get_string ms ''source_link'') (\<lambda>h.
       Some \<lparr>id' = i, project_name = a, location = b, project_type = c, stage = d,
             stakeholders = e, project_value = f, date_added = g, source_link = h\<rparr>)))))))))"
| "project_of_json _ = None"

text \<open>
  What may follow the digits of a number: the end of the text, or a character that is
  neither a digit nor the start of a fraction or an exponent.
\<close>

definition number_end :: "string \<Rightarrow> bool" where
  "number_end rest =
     (rest = [] \<or> (\<not> is_digit (hd rest) \<and> hd rest \<notin> {CHR ''.'', CHR ''e'', CHR ''E''}))"

text \<open>The tokens of the text of one project.\<close>

definition project_tokens :: "Project \<Rightarrow> token list" where
  "project_tokens p =
     [TLBrace,
      TString ''id'', TColon, TNumber (id' p), TComma,
      TString ''project_name'', TColon, TString (project_name p), TComma,
      TString ''location'', TColon, TString (location p), TComma,
      TString ''project_type'', TColon, TString (project_type p), TComma,
      TString ''stage'', TColon, TString (stage p), TComma,
      TString ''stakeholders'', TColon, TString (stakeholders p), TComma,
      TString ''project_value'', TColon, TString (project_value p), TComma,
      TString ''date_added'', TColon, TString (date_added p), TComma,
      TString ''source_link'', TColon, TString (source_link p),
      TRBrace]"

section \<open>The specification's wording of a CSV row\<close>

text \<open>
  A row of the CSV export as the specification words it: the bare id, every text field
  sentinel-substituted, its double quotes doubled, and wrapped in double quotes, and the
  date as formatted by the locale when it parses and "Not specified" otherwise.
\<close>

definition spec_csv_field :: "string \<Rightarrow> string" where
  "spec_csv_field s = [dq] @ replace_quotes (spec_sentinel s) @ [dq]"

definition spec_dateCell :: "(string \<Rightarrow> int option) \<Rightarrow> (int \<Rightarrow> string) \<Rightarrow> string \<Rightarrow> string" where
  "spec_dateCell parseDate toLocaleDateString d =
     (case parseDate d of None \<Rightarrow> NotSpecified | Some t \<Rightarrow> toLocaleDateString t)"

definition spec_csv_row :: "(string \<Rightarrow> int option) \<Rightarrow> (int \<Rightarrow> string) \<Rightarrow> Project \<Rightarrow> string" where
  "spec_csv_row parseDate toLocaleDateString project =
     join '',''
       [string_of_int (id' project),
        spec_csv_field (project_name project),
        spec_csv_field (location project),
        spec_csv_field (project_type project),
        spec_csv_field (stage project),
        spec_csv_field (stakeholders project),
        spec_csv_field (project_value project),
        spec_csv_field (source_link project),
        spec_dateCell parseDate toLocaleDateString (date_added project)]"

section \<open>Facts about the string operations\<close>

lemma endsWith_suffix: "endsWith s suf \<longleftrightarrow> suffix suf s"
proof
  assume "endsWith s suf"
  then have "s = take (length s - length suf) s @ suf"
    by (metis append_take_drop_id endsWith_def)
  then show "suffix suf s"
    by (metis suffixI)
next
  assume "suffix suf s"
  then obtain zs where "s = zs @ suf"
    by (auto simp: suffix_def)
  then show "endsWith s suf"
    by (simp add: endsWith_def)
qed

lemma startsWith_prefix: "startsWith s pre \<longleftrightarrow> prefix pre s"
proof
  assume "startsWith s pre"
  then have "s = pre @ drop (length pre) s"
    by (metis append_take_drop_id startsWith_def)
  then show "prefix pre s"
    by (metis prefixI)
next
  assume "prefix pre s"
  then obtain zs where "s = pre @ zs"
    by (auto simp: prefix_def)
  then show "startsWith s pre"
    by (simp add: startsWith_def)
qed

lemma includes_sublist: "includes_str s t \<longleftrightarrow> sublist t s"
proof (induction s)
  case Nil
  then show ?case by auto
next
  case (Cons c cs)
  have "take (length t) (c # cs) = t \<longleftrightarrow> prefix t (c # cs)"
    by (metis startsWith_def startsWith_prefix)
  then show ?case
    using Cons by (simp add: sublist_Cons_right del: take_Suc_Cons)
qed

text \<open>Lower case and white space beyond ASCII.\<close>

lemma toLowerCase_accented:
  "toLowerCase [CHR 0xC9, CHR ''C'', CHR 0xD7, CHR 0xDE, CHR 0xDF]
   = [CHR 0xE9, CHR ''c'', CHR 0xD7, CHR 0xFE, CHR 0xDF]"
  by code_simp

lemma trim_no_break_space: "trim [CHR 0xA0, CHR ''a'', CHR '' ''] = ''a''"
  by code_simp

section \<open>Facts about sorting and filtering\<close>

lemma length_insert_by: "length (insert_by cmp x xs) = Suc (length xs)"
  by (induction xs) auto

lemma length_sort_by: "length (sort_by cmp xs) = length xs"
  by (induction xs) (auto simp: sort_by_def length_insert_by)

lemma length_filter_mono:
  "(\<And>x. P x \<Longrightarrow> Q x) \<Longrightarrow> length (filter P xs) \<le> length (filter Q xs)"
  by (induction xs) auto

section \<open>Facts about the transitions\<close>

lemma handleFilter_page: "currentPage (handleFilter k v S) = 1"
  by (cases k) simp_all

lemma changed_page_one:
  "searchTerm (step pd ps S e) \<noteq> searchTerm S \<or> filterStage (step pd ps S e) \<noteq> filterStage S
   \<or> filterType (step pd ps S e) \<noteq> filterType S
   \<or> filterSource (step pd ps S e) \<noteq> filterSource S
   \<or> sortField (step pd ps S e) \<noteq> sortField S
   \<or> sortDirection (step pd ps S e) \<noteq> sortDirection S
   \<or> itemsPerPage (step pd ps S e) \<noteq> itemsPerPage S
   \<Longrightarrow> currentPage (step pd ps S e) = 1"
  by (cases e) (auto simp: handleSort_def handleSearch_def clearFilters_def
      changeItemsPerPage_def handleFilter_page split: if_splits)

section \<open>Facts about pagination\<close>

lemma totalPages_bounds:
  assumes "0 < n"
  shows "int (length rows) \<le> totalPages rows n * n"
    and "(totalPages rows n - 1) * n < int (length rows)"
proof -
  let ?x = "real (length rows) / real_of_int n"
  have n: "0 < real_of_int n"
    using assms by simp
  have "?x \<le> of_int \<lceil>?x\<rceil>"
    by (rule le_of_int_ceiling)
  then have "real (length rows) \<le> of_int \<lceil>?x\<rceil> * real_of_int n"
    by (simp only: pos_divide_le_eq [OF n])
  then have "real_of_int (int (length rows)) \<le> real_of_int (\<lceil>?x\<rceil> * n)"
    by simp
  then show "int (length rows) \<le> totalPages rows n * n"
    unfolding totalPages_def by (simp only: of_int_le_iff)
  have "of_int \<lceil>?x\<rceil> - 1 < ?x"
    using ceiling_correct [of ?x] by simp
  then have "(of_int \<lceil>?x\<rceil> - 1) * real_of_int n < real (length rows)"
    by (simp only: pos_less_divide_eq [OF n])
  then have "real_of_int ((\<lceil>?x\<rceil> - 1) * n) < real_of_int (int (length rows))"
    by simp
  then show "(totalPages rows n - 1) * n < int (length rows)"
    unfolding totalPages_def by (simp only: of_int_less_iff)
qed

lemma slice_nonneg:
  assumes "0 \<le> a" "0 \<le> n"
  shows "slice xs a (a + n) = take (nat n) (drop (nat a) xs)"
proof (cases "a \<le> int (length xs)")
  case True
  then show ?thesis using assms
    by (auto simp: slice_def Let_def min_def nat_diff_distrib nat_add_distrib)
next
  case False
  then show ?thesis using assms
    by (auto simp: slice_def Let_def min_def)
qed

lemma take_drop_nths:
  "take n (drop a xs) = map (nth xs) [a ..< min (a + n) (length xs)]"
proof (rule nth_equalityI)
  show "length (take n (drop a xs)) = length (map (nth xs) [a ..< min (a + n) (length xs)])"
    by auto
next
  fix i
  assume "i < length (take n (drop a xs))"
  then show "take n (drop a xs) ! i = map (nth xs) [a ..< min (a + n) (length xs)] ! i"
    by auto
qed

lemma paginatedProjects_nths:
  assumes "0 < itemsPerPage S" and "1 \<le> currentPage S"
  shows "paginatedProjects rows S =
     map (nth rows) [nat ((currentPage S - 1) * itemsPerPage S) ..<
                     min (nat (currentPage S * itemsPerPage S)) (length rows)]"
proof -
  have a: "0 \<le> (currentPage S - 1) * itemsPerPage S"
    using assms by simp
  have "nat ((currentPage S - 1) * itemsPerPage S) + nat (itemsPerPage S)
        = nat (currentPage S * itemsPerPage S)"
    using assms a by (simp add: nat_add_distrib [symmetric] algebra_simps)
  then show ?thesis
    using assms a
    by (simp add: paginatedProjects_def startIndex_def slice_nonneg take_drop_nths)
qed

text \<open>
  A page number below 1 and a page size outside the options are never reached.
\<close>

lemma handleFilter_itemsPerPage: "itemsPerPage (handleFilter k v S) = itemsPerPage S"
  by (cases k) simp_all

lemma handleFilter_currentPage_pos: "1 \<le> currentPage (handleFilter k v S)"
  by (cases k) simp_all

lemma reachable_invariant:
  "reachable pd S \<Longrightarrow> 1 \<le> currentPage S \<and> itemsPerPage S \<in> set ITEMS_PER_PAGE_OPTIONS"
proof (induction rule: reachable.induct)
  case reachable_init
  show ?case
    by (simp add: initialState_def ITEMS_PER_PAGE_OPTIONS_def)
next
  case (reachable_step S ps e)
  then show ?case
    by (cases e)
       (auto simp: handleSort_def handleSearch_def clearFilters_def changeItemsPerPage_def
          handleFilter_page handleFilter_itemsPerPage ITEMS_PER_PAGE_OPTIONS_def
          split: if_splits)
qed

lemma map_nth_map_upt:
  "b \<le> n \<Longrightarrow> map (nth (map f [0 ..< n])) [a ..< b] = map f [a ..< b]"
  by (rule map_cong) auto

section \<open>Facts about the search condition\<close>

lemma element_sublist_join: "x \<in> set xs \<Longrightarrow> sublist x (join sep xs)"
proof (induction sep xs rule: join.induct)
  case (1 sep)
  then show ?case by simp
next
  case (2 sep y)
  then show ?case by simp
next
  case (3 sep y z zs)
  show ?case
  proof (cases "x = y")
    case True
    then show ?thesis by simp
  next
    case False
    with 3 have "sublist x (join sep (z # zs))"
      by simp
    then show ?thesis
      by (metis sublist_append join.simps(3) append_assoc)
  qed
qed

lemma sublist_toLowerCase:
  "sublist a b \<Longrightarrow> sublist (toLowerCase a) (toLowerCase b)"
  unfolding toLowerCase_def by (rule map_mono_sublist)

lemma matchesSearch_sublist:
  "matchesSearch tm project \<longleftrightarrow>
     sublist (toLowerCase tm)
       (toLowerCase (join '' '' (map (\<lambda>k. toString (valueOrNotSpecified (field project k))) keys)))"
  by (simp add: matchesSearch_def includes_sublist searchableValues_def object_values_def
      comp_def)

text \<open>A term found in one field's value is found in the project.\<close>

lemma matchesSearch_field:
  assumes "k \<in> set keys"
    and "sublist (toLowerCase tm) (toLowerCase (toString (valueOrNotSpecified (field project k))))"
  shows "matchesSearch tm project"
proof -
  let ?vals = "map (\<lambda>k. toString (valueOrNotSpecified (field project k))) keys"
  have "toString (valueOrNotSpecified (field project k)) \<in> set ?vals"
    using assms(1) by simp
  then have "sublist (toString (valueOrNotSpecified (field project k))) (join '' '' ?vals)"
    by (rule element_sublist_join)
  then have "sublist (toLowerCase (toString (valueOrNotSpecified (field project k))))
               (toLowerCase (join '' '' ?vals))"
    by (rule sublist_toLowerCase)
  with assms(2) have "sublist (toLowerCase tm) (toLowerCase (join '' '' ?vals))"
    by (rule sublist_order.order.trans)
  then show ?thesis
    by (simp only: matchesSearch_sublist)
qed

lemma acme_in_stakeholders:
  assumes "sublist ''Acme'' (stakeholders project)"
  shows "matchesSearch ''acme'' project"
proof -
  have ne: "stakeholders project \<noteq> []"
    using assms by auto
  have low: "toLowerCase ''Acme'' = ''acme''"
    by code_simp
  have "sublist (toLowerCase ''Acme'') (toLowerCase (stakeholders project))"
    using assms by (rule sublist_toLowerCase)
  then have "sublist (toLowerCase ''acme'')
      (toLowerCase (toString (valueOrNotSpecified (field project K_stakeholders))))"
    using ne low by (simp add: valueOrNotSpecified_def toLowerCase_def lower_char_def)
  moreover have "K_stakeholders \<in> set keys"
    by (simp add: keys_def)
  ultimately show ?thesis
    by (rule matchesSearch_field [rotated])
qed

section \<open>Facts about the comparator\<close>

lemma isNotSpecified_Str:
  "isNotSpecified (Str s) \<longleftrightarrow> s = [] \<or> trim s = [] \<or> s = NotSpecified"
  by (auto simp: isNotSpecified_def)

text \<open>
  On \<open>date_added\<close> a missing value compares after a present one in both directions.
\<close>

lemma date_missing_last:
  assumes "spec_missing pd K_date_added a" and "\<not> spec_missing pd K_date_added b"
  shows "compareProjects pd K_date_added dir a b = 1"
    and "compareProjects pd K_date_added dir b a = - 1"
  using assms
  by (auto simp: spec_missing_def compareProjects_def isNotSpecified_Str Let_def
      split: option.splits)

text \<open>
  On every other field a missing value compares after a present one when ascending, and
  before it when descending.
\<close>

lemma text_missing_ascending:
  assumes "k \<noteq> K_date_added" and "spec_missing pd k a" and "\<not> spec_missing pd k b"
  shows "compareProjects pd k Asc a b = 1"
    and "compareProjects pd k Asc b a = - 1"
  using assms
  by (cases k; simp add: spec_missing_def compareProjects_def compareValues_def
      isNotSpecified_Str Let_def)+

lemma text_missing_descending:
  assumes "k \<noteq> K_date_added" and "spec_missing pd k a" and "\<not> spec_missing pd k b"
  shows "compareProjects pd k Desc a b = - 1"
    and "compareProjects pd k Desc b a = 1"
  using assms
  by (cases k; simp add: spec_missing_def compareProjects_def compareValues_def
      isNotSpecified_Str Let_def)+

section \<open>Facts about the export\<close>

lemma join_Cons: "join sep (x # xs) = x @ concat (map (\<lambda>y. sep @ y) xs)"
  by (induction xs arbitrary: x) simp_all

lemma replace_quotes_concat:
  "replace_quotes s =
     concat (map (\<lambda>c. if c = CHR 0x22 then [CHR 0x22, CHR 0x22] else [c]) s)"
  by (induction s) (simp_all add: dq_def)

section \<open>Facts about the JSON export\<close>

text \<open>Quoting a string and reading it back.\<close>

lemma hex_value_hex_digit: "d < 16 \<Longrightarrow> hex_value (hex_digit d) = Some d"
  by (simp add: hex_value_def hex_digit_def Let_def)

lemma lex_string_plain:
  assumes "32 \<le> (of_char c :: nat)" and "(of_char c :: nat) \<noteq> 34" and "(of_char c :: nat) \<noteq> 92"
  shows "lex_string (c # r) = map_option (\<lambda>(s, r'). (c # s, r')) (lex_string r)"
  using assms by simp

lemma lex_string_short:
  assumes "(of_char e :: nat) \<noteq> 117" and "unescape e = Some c"
  shows "lex_string (backslash # e # r) = map_option (\<lambda>(s, r'). (c # s, r')) (lex_string r)"
  using assms by (simp add: backslash_def)

lemma lex_string_unicode:
  assumes "n < 32"
  shows "lex_string (backslash # CHR ''u'' # CHR ''0'' # CHR ''0'' # hex_digit (n div 16) # hex_digit (n mod 16) # r)
    = map_option (\<lambda>(s, r'). (char_of n # s, r')) (lex_string r)"
proof -
  have z: "hex_value (CHR ''0'') = Some 0"
    by (simp add: hex_value_def)
  have h: "hex_value (hex_digit (n div 16)) = Some (n div 16)"
    using assms by (intro hex_value_hex_digit) simp
  have l: "hex_value (hex_digit (n mod 16)) = Some (n mod 16)"
    by (intro hex_value_hex_digit) simp
  show ?thesis
    by (simp add: backslash_def z h l)
qed

lemma lex_string_escape:
  "lex_string (escape_char c @ r) = map_option (\<lambda>(s, r'). (c # s, r')) (lex_string r)"
proof -
  let ?n = "of_char c :: nat"
  have c: "c = char_of ?n"
    by simp
  consider "?n = 8" | "?n = 9" | "?n = 10" | "?n = 12" | "?n = 13" | "?n = 34" | "?n = 92"
    | "?n < 32" "?n \<notin> {8, 9, 10, 12, 13}" | "32 \<le> ?n" "?n \<noteq> 34" "?n \<noteq> 92"
    by fastforce
  then show ?thesis
  proof cases
    case 1
    then have e: "escape_char c = [backslash, CHR ''b'']" and u: "unescape (CHR ''b'') = Some c"
      using c by (simp_all add: escape_char_def unescape_def dq_def backslash_def)
    have ne: "(of_char (CHR ''b'') :: nat) \<noteq> 117"
      by (simp add: dq_def backslash_def)
    show ?thesis
      by (simp only: e append_Cons append_Nil lex_string_short [OF ne u])
  next
    case 2
    then have e: "escape_char c = [backslash, CHR ''t'']" and u: "unescape (CHR ''t'') = Some c"
      using c by (simp_all add: escape_char_def unescape_def dq_def backslash_def)
    have ne: "(of_char (CHR ''t'') :: nat) \<noteq> 117"
      by (simp add: dq_def backslash_def)
    show ?thesis
      by (simp only: e append_Cons append_Nil lex_string_short [OF ne u])
  next
    case 3
    then have e: "escape_char c = [backslash, CHR ''n'']" and u: "unescape (CHR ''n'') = Some c"
      using c by (simp_all add: escape_char_def unescape_def dq_def backslash_def)
    have ne: "(of_char (CHR ''n'') :: nat) \<noteq> 117"
      by (simp add: dq_def backslash_def)
    show ?thesis
      by (simp only: e append_Cons append_Nil lex_string_short [OF ne u])
  next
    case 4
    then have e: "escape_char c = [backslash, CHR ''f'']" and u: "unescape (CHR ''f'') = Some c"
      using c by (simp_all add: escape_char_def unescape_def dq_def backslash_def)
    have ne: "(of_char (CHR ''f'') :: nat) \<noteq> 117"
      by (simp add: dq_def backslash_def)
    show ?thesis
      by (simp only: e append_Cons append_Nil lex_string_short [OF ne u])
  next
    case 5
    then have e: "escape_char c = [backslash, CHR ''r'']" and u: "unescape (CHR ''r'') = Some c"
      using c by (simp_all add: escape_char_def unescape_def dq_def backslash_def)
    have ne: "(of_char (CHR ''r'') :: nat) \<noteq> 117"
      by (simp add: dq_def backslash_def)
    show ?thesis
      by (simp only: e append_Cons append_Nil lex_string_short [OF ne u])
  next
    case 6
    then have "(of_char c :: nat) = of_char dq"
      by (simp add: dq_def)
    then have cd: "c = dq"
      by (simp only: of_char_eq_iff)
    have e: "escape_char c = [backslash, dq]" and u: "unescape (dq) = Some c"
      unfolding cd by (simp_all add: escape_char_def unescape_def dq_def backslash_def)
    have ne: "(of_char (dq) :: nat) \<noteq> 117"
      by (simp add: dq_def backslash_def)
    show ?thesis
      by (simp only: e append_Cons append_Nil lex_string_short [OF ne u])
  next
    case 7
    then have "(of_char c :: nat) = of_char backslash"
      by (simp add: backslash_def)
    then have cd: "c = backslash"
      by (simp only: of_char_eq_iff)
    have e: "escape_char c = [backslash, backslash]" and u: "unescape (backslash) = Some c"
      unfolding cd by (simp_all add: escape_char_def unescape_def dq_def backslash_def)
    have ne: "(of_char (backslash) :: nat) \<noteq> 117"
      by (simp add: dq_def backslash_def)
    show ?thesis
      by (simp only: e append_Cons append_Nil lex_string_short [OF ne u])
  next
    case 8
    then have "escape_char c =
        [backslash, CHR ''u'', CHR ''0'', CHR ''0'', hex_digit (?n div 16), hex_digit (?n mod 16)]"
      by (simp add: escape_char_def Let_def)
    then show ?thesis
      using lex_string_unicode [OF 8(1), of r] by simp
  next
    case 9
    then have e: "escape_char c = [c]"
      by (simp add: escape_char_def Let_def)
    show ?thesis
      by (simp only: e append_Cons append_Nil lex_string_plain [OF 9])
  qed
qed

lemma lex_string_quote:
  "lex_string (concat (map escape_char s) @ dq # rest) = Some (s, rest)"
proof (induction s)
  case Nil
  show ?case by (simp add: dq_def)
next
  case (Cons c s)
  then show ?case
    by (simp only: list.map concat.simps append_assoc lex_string_escape)
       simp
qed

text \<open>Printing an integer and reading it back.\<close>

lemma is_digit_digit_char: "d < 10 \<Longrightarrow> is_digit (digit_char d)"
  by (simp add: is_digit_def digit_char_def)

lemma digit_char_value: "d < 10 \<Longrightarrow> (of_char (digit_char d) :: nat) - 48 = d"
  by (simp add: digit_char_def)

lemma string_of_nat_digits: "c \<in> set (string_of_nat n) \<Longrightarrow> is_digit c"
proof (induction n rule: string_of_nat.induct)
  case (1 n)
  show ?case
  proof (cases "n < 10")
    case True
    with "1.prems" show ?thesis
      by (simp add: string_of_nat.simps [of n] is_digit_digit_char)
  next
    case False
    with "1.prems" "1.IH" show ?thesis
      by (auto simp: string_of_nat.simps [of n] is_digit_digit_char)
  qed
qed

lemma string_of_nat_nonempty: "string_of_nat n \<noteq> []"
  by (simp add: string_of_nat.simps [of n])

lemma nat_of_digits_snoc:
  "nat_of_digits (xs @ [d]) = 10 * nat_of_digits xs + ((of_char d :: nat) - 48)"
  by (simp add: nat_of_digits_def)

lemma nat_of_digits_string_of_nat: "nat_of_digits (string_of_nat n) = n"
proof (induction n rule: string_of_nat.induct)
  case (1 n)
  show ?case
  proof (cases "n < 10")
    case True
    then show ?thesis
      by (simp add: string_of_nat.simps [of n] nat_of_digits_def digit_char_value)
  next
    case False
    with "1.IH" show ?thesis
      by (simp add: string_of_nat.simps [of n] nat_of_digits_snoc digit_char_value)
  qed
qed

lemma hd_string_of_nat: "0 < n \<Longrightarrow> hd (string_of_nat n) \<noteq> CHR ''0''"
proof (induction n rule: string_of_nat.induct)
  case (1 n)
  show ?case
  proof (cases "n < 10")
    case True
    have "(of_char (digit_char n) :: nat) \<noteq> of_char (CHR ''0'')"
      using True "1.prems" by (simp add: digit_char_def)
    then have "digit_char n \<noteq> CHR ''0''"
      by (simp only: of_char_eq_iff not_False_eq_True)
    with True show ?thesis
      by (simp add: string_of_nat.simps [of n])
  next
    case False
    then have "0 < n div 10"
      by simp
    with False "1.IH" have "hd (string_of_nat (n div 10)) \<noteq> CHR ''0''"
      by simp
    with False show ?thesis
      by (simp add: string_of_nat.simps [of n] string_of_nat_nonempty)
  qed
qed

lemma length_string_of_nat_zero: "length (string_of_nat 0) = 1"
  by (simp add: string_of_nat.simps [of 0])

lemma takeWhile_digits:
  assumes "number_end rest"
  shows "takeWhile is_digit (string_of_nat n @ rest) = string_of_nat n"
    and "dropWhile is_digit (string_of_nat n @ rest) = rest"
proof -
  have r: "takeWhile is_digit rest = []" "dropWhile is_digit rest = rest"
    using assms by (cases rest; simp add: number_end_def)+
  show "takeWhile is_digit (string_of_nat n @ rest) = string_of_nat n"
    using r by (simp add: takeWhile_append2 string_of_nat_digits)
  show "dropWhile is_digit (string_of_nat n @ rest) = rest"
    using r by (simp add: dropWhile_append2 string_of_nat_digits)
qed

lemma hd_string_of_nat_digit: "is_digit (hd (string_of_nat n))"
  using string_of_nat_digits [of "hd (string_of_nat n)" n] string_of_nat_nonempty [of n]
  by simp

lemma minus_not_digit: "\<not> is_digit (CHR ''-'')"
  by (simp add: is_digit_def)

lemma lex_number_eval_neg:
  assumes "takeWhile is_digit body = ds" and "dropWhile is_digit body = r"
    and "ds \<noteq> []" and "\<not> (1 < length ds \<and> hd ds = CHR ''0'')"
    and "\<not> (r \<noteq> [] \<and> hd r \<in> {CHR ''.'', CHR ''e'', CHR ''E''})"
    and "nat_of_digits ds \<noteq> 0"
  shows "lex_number (CHR ''-'' # body) = Some (- int (nat_of_digits ds), r)"
  unfolding lex_number_def Let_def list.sel
  using assms(3-6) by (simp add: assms(1,2))

lemma lex_number_eval_pos:
  assumes "takeWhile is_digit body = ds" and "dropWhile is_digit body = r"
    and "ds \<noteq> []" and "\<not> (1 < length ds \<and> hd ds = CHR ''0'')"
    and "\<not> (r \<noteq> [] \<and> hd r \<in> {CHR ''.'', CHR ''e'', CHR ''E''})"
    and "hd body \<noteq> CHR ''-''"
  shows "lex_number body = Some (int (nat_of_digits ds), r)"
  unfolding lex_number_def Let_def
  using assms(3-6) by (simp add: assms(1,2))

lemma lex_number_string_of_int:
  assumes "number_end rest"
  shows "lex_number (string_of_int i @ rest) = Some (i, rest)"
proof (cases "i < 0")
  case True
  let ?m = "nat (- i)"
  have m: "0 < ?m"
    using True by simp
  have s: "string_of_int i @ rest = CHR ''-'' # (string_of_nat ?m @ rest)"
    using True by (simp add: string_of_int_def)
  have lead: "\<not> (1 < length (string_of_nat ?m) \<and> hd (string_of_nat ?m) = CHR ''0'')"
    using hd_string_of_nat [OF m] by simp
  have e: "\<not> (rest \<noteq> [] \<and> hd rest \<in> {CHR ''.'', CHR ''e'', CHR ''E''})"
    using assms by (auto simp: number_end_def)
  have v: "nat_of_digits (string_of_nat ?m) \<noteq> 0"
    using m by (simp add: nat_of_digits_string_of_nat)
  have "lex_number (CHR ''-'' # (string_of_nat ?m @ rest))
        = Some (- int (nat_of_digits (string_of_nat ?m)), rest)"
    using takeWhile_digits [OF assms] string_of_nat_nonempty lead e v
    by (rule lex_number_eval_neg)
  then show ?thesis
    using True by (simp add: s nat_of_digits_string_of_nat)
next
  case False
  let ?m = "nat i"
  have s: "string_of_int i @ rest = string_of_nat ?m @ rest"
    using False by (simp add: string_of_int_def)
  have h: "hd (string_of_nat ?m @ rest) \<noteq> CHR ''-''"
    using hd_string_of_nat_digit [of ?m] minus_not_digit
    by (auto simp: string_of_nat_nonempty)
  have lead: "\<not> (1 < length (string_of_nat ?m) \<and> hd (string_of_nat ?m) = CHR ''0'')"
  proof (cases "?m = 0")
    case True
    then show ?thesis
      by (simp add: length_string_of_nat_zero)
  next
    case False
    then show ?thesis
      using hd_string_of_nat [of ?m] by simp
  qed
  have e: "\<not> (rest \<noteq> [] \<and> hd rest \<in> {CHR ''.'', CHR ''e'', CHR ''E''})"
    using assms by (auto simp: number_end_def)
  have "lex_number (string_of_nat ?m @ rest)
        = Some (int (nat_of_digits (string_of_nat ?m)), rest)"
    using takeWhile_digits [OF assms] string_of_nat_nonempty lead e h
    by (rule lex_number_eval_pos)
  then show ?thesis
    using False by (simp add: s nat_of_digits_string_of_nat)
qed

text \<open>The lexer on the pieces of the exported text.\<close>

lemma lex_ws: "json_ws c \<Longrightarrow> lex (c # s) = lex s"
  by (simp add: lex.simps [of "c # s"] lex.simps [of s])

lemma lex_newline: "lex (CHR 0x0A # s) = lex s"
  by (rule lex_ws) (simp add: json_ws_def)

lemma lex_space: "lex (CHR '' '' # s) = lex s"
  by (rule lex_ws) (simp add: json_ws_def)

lemma lex_token:
  "\<not> json_ws c \<Longrightarrow> next_token c cs = Some (t, r) \<Longrightarrow> lex (c # cs) = map_option (Cons t) (lex r)"
  by (simp add: lex.simps [of "c # cs"])

lemma lex_punctuation:
  "lex (CHR ''['' # s) = map_option (Cons TLBrack) (lex s)"
  "lex (CHR '']'' # s) = map_option (Cons TRBrack) (lex s)"
  "lex (CHR ''{'' # s) = map_option (Cons TLBrace) (lex s)"
  "lex (CHR ''}'' # s) = map_option (Cons TRBrace) (lex s)"
  "lex (CHR '','' # s) = map_option (Cons TComma) (lex s)"
  "lex (CHR '':'' # s) = map_option (Cons TColon) (lex s)"
  by (rule lex_token; simp add: json_ws_def next_token_def punctuation_def)+

lemma lex_quote: "lex (QuoteJSONString s @ rest) = map_option (Cons (TString s)) (lex rest)"
proof -
  have q: "QuoteJSONString s @ rest = dq # (concat (map escape_char s) @ dq # rest)"
    by (simp add: QuoteJSONString_def)
  have "next_token dq (concat (map escape_char s) @ dq # rest) = Some (TString s, rest)"
    by (simp add: next_token_def punctuation_def lex_string_quote) (simp add: dq_def)
  moreover have "\<not> json_ws dq"
    by (simp add: json_ws_def dq_def)
  ultimately show ?thesis
    unfolding q by (rule lex_token [rotated])
qed

lemma digit_not_special:
  assumes "is_digit c \<or> c = CHR ''-''"
  shows "\<not> json_ws c" and "punctuation c = None" and "c \<noteq> dq"
proof -
  let ?n = "of_char c :: nat"
  have n: "(48 \<le> ?n \<and> ?n \<le> 57) \<or> ?n = 45"
    using assms by (auto simp: is_digit_def)
  then show "\<not> json_ws c"
    by (auto simp: json_ws_def)
  have "c \<noteq> d" if "?n \<noteq> of_char d" for d
    using that by auto
  then have "c \<noteq> CHR ''[''" "c \<noteq> CHR '']''" "c \<noteq> CHR ''{''" "c \<noteq> CHR ''}''"
    "c \<noteq> CHR '',''" "c \<noteq> CHR '':''" "c \<noteq> CHR 0x22"
    using n by fastforce+
  then show "punctuation c = None" and "c \<noteq> dq"
    by (simp_all add: punctuation_def dq_def)
qed

lemma string_of_int_first:
  "\<exists>c cs. string_of_int i = c # cs \<and> (is_digit c \<or> c = CHR ''-'')"
proof (cases "i < 0")
  case True
  then show ?thesis
    by (simp add: string_of_int_def)
next
  case False
  obtain c cs where s: "string_of_nat (nat i) = c # cs"
    using string_of_nat_nonempty [of "nat i"] by (cases "string_of_nat (nat i)") auto
  then have "is_digit c"
    using string_of_nat_digits [of c "nat i"] by simp
  with s False show ?thesis
    by (simp add: string_of_int_def)
qed

lemma lex_int:
  assumes "number_end rest"
  shows "lex (string_of_int i @ rest) = map_option (Cons (TNumber i)) (lex rest)"
proof -
  obtain c cs where s: "string_of_int i = c # cs" and c: "is_digit c \<or> c = CHR ''-''"
    using string_of_int_first by blast
  have "lex_number (c # cs @ rest) = Some (i, rest)"
    using lex_number_string_of_int [OF assms, of i] by (simp add: s)
  then have "next_token c (cs @ rest) = Some (TNumber i, rest)"
    using c digit_not_special [OF c] by (auto simp: next_token_def)
  then have "lex (c # (cs @ rest)) = map_option (Cons (TNumber i)) (lex rest)"
    using digit_not_special(1) [OF c] by (rule lex_token [rotated])
  then show ?thesis
    by (simp add: s)
qed

lemma number_end_comma: "number_end (CHR '','' # s)"
  by (simp add: number_end_def is_digit_def)

lemma lex_project:
  "lex (stringify gap (project_json p) @ rest) = map_option ((@) (project_tokens p)) (lex rest)"
proof -
  have "lex (stringify gap (project_json p) @ rest)
        = map_option (\<lambda>ts. project_tokens p @ ts) (lex rest)"
    by (simp add: project_json_def gap_def newline_def lex_punctuation lex_newline lex_space
        lex_quote lex_int [OF number_end_comma] option.map_comp comp_def project_tokens_def)
  then show ?thesis
    by (simp add: comp_def)
qed

lemma lex_Nil: "lex [] = Some []"
  by (simp add: lex.simps [of "[]"])

lemma lex_more_projects:
  "lex (concat (map (\<lambda>y. ('','' @ newline @ gap) @ y) (map (stringify gap) (map project_json ps)))
        @ newline @ '']'')
   = Some (concat (map (\<lambda>p. TComma # project_tokens p) ps) @ [TRBrack])"
proof (induction ps)
  case Nil
  show ?case
    by (simp add: newline_def lex_newline lex_punctuation lex_Nil)
next
  case (Cons p ps)
  then show ?case
    by (simp add: newline_def gap_def lex_newline lex_space lex_punctuation
        lex_project [unfolded gap_def])
qed

lemma lex_export:
  "lex (exportToJSON (p # ps))
   = Some (TLBrack # project_tokens p
           @ concat (map (\<lambda>q. TComma # project_tokens q) ps) @ [TRBrack])"
proof -
  have "exportToJSON (p # ps)
        = ''['' @ newline @ gap
          @ stringify gap (project_json p)
          @ concat (map (\<lambda>y. ('','' @ newline @ gap) @ y)
              (map (stringify gap) (map project_json ps)))
          @ newline @ '']''"
    by (simp add: exportToJSON_def join_Cons)
  then show ?thesis
    using lex_more_projects [of ps]
    by (simp add: newline_def gap_def lex_newline lex_space lex_punctuation
        lex_project [unfolded gap_def])
qed

text \<open>The parser on the tokens of the exported text.\<close>

lemma parse_project: "parse_element (project_tokens p @ rest) = Some (project_json p, rest)"
  by (simp add: parse_element_def project_tokens_def project_json_def)

lemma parse_projects:
  "parse_elements (project_tokens p @ concat (map (\<lambda>q. TComma # project_tokens q) ps) @ [TRBrack])
   = Some (map project_json (p # ps), [])"
proof (induction ps arbitrary: p)
  case Nil
  show ?case
    by (subst parse_elements.simps) (simp add: parse_project)
next
  case (Cons q qs)
  show ?case
    by (subst parse_elements.simps) (simp add: parse_project Cons.IH)
qed

lemma JSON_parse_export: "JSON_parse (exportToJSON data) = Some (JArr (map project_json data))"
proof (cases data)
  case Nil
  have "lex ''[]'' = Some [TLBrack, TRBrack]"
    by (simp add: lex_punctuation lex_Nil)
  then show ?thesis
    using Nil by (simp add: JSON_parse_def exportToJSON_def parse_value_def)
next
  case (Cons p ps)
  have "hd (project_tokens p @ concat (map (\<lambda>q. TComma # project_tokens q) ps) @ [TRBrack])
        \<noteq> TRBrack"
    by (simp add: project_tokens_def)
  then show ?thesis
    unfolding Cons JSON_parse_def lex_export parse_value_def
    by (simp add: parse_projects)
qed

lemma project_of_json_project_json: "project_of_json (project_json p) = Some p"
  by (simp add: project_json_def)

section \<open>Claims\<close>

text \<open>
  C2. For every \<open>source_link\<close> string the derived source type is "Not specified" if the
  string is empty; otherwise "PDF" if it ends with ".pdf"; otherwise "Texas" if it starts
  with the portal prefix; otherwise "Website". The suffix check is made first, so a portal
  link that ends with ".pdf" is a "PDF".
\<close>

theorem getSourceType_cases:
  "getSourceType s =
     (if s = '''' then ''Not specified''
      else if suffix ''.pdf'' s then ''PDF''
      else if prefix ''https://www.tdlr.texas.gov/TABS/'' s then ''Texas''
      else ''Website'')
   \<and> getSourceType ''https://www.tdlr.texas.gov/TABS/x.pdf'' = ''PDF''"
proof -
  have "endsWith ''https://www.tdlr.texas.gov/TABS/x.pdf'' ''.pdf''"
    by (simp add: endsWith_def)
  then have "getSourceType ''https://www.tdlr.texas.gov/TABS/x.pdf'' = ''PDF''"
    by (simp add: getSourceType_def)
  then show ?thesis
    by (simp add: getSourceType_def NotSpecified_def endsWith_suffix startsWith_prefix)
qed

text \<open>
  C8. For every project list \<open>P\<close>, view state \<open>S\<close> and value \<open>X\<close>, the number of
  projects that pass the filter with \<open>filterStage = X\<close> is at most the number that pass
  with \<open>filterStage = ""\<close>; the same holds for \<open>filterType\<close> and for \<open>filterSource\<close>.
  The count is the length of \<open>filteredAndSortedProjects\<close>, as the page shows it.
\<close>

theorem filter_narrowing:
  "length (filteredAndSortedProjects pd P (S\<lparr>filterStage := X\<rparr>))
     \<le> length (filteredAndSortedProjects pd P (S\<lparr>filterStage := ''''\<rparr>))
   \<and> length (filteredAndSortedProjects pd P (S\<lparr>filterType := X\<rparr>))
     \<le> length (filteredAndSortedProjects pd P (S\<lparr>filterType := ''''\<rparr>))
   \<and> length (filteredAndSortedProjects pd P (S\<lparr>filterSource := X\<rparr>))
     \<le> length (filteredAndSortedProjects pd P (S\<lparr>filterSource := ''''\<rparr>))"
  unfolding filteredAndSortedProjects_def length_sort_by
  by (intro conjI length_filter_mono)
     (simp_all add: passesFilter_def matchesStage_def matchesType_def matchesSource_def)

text \<open>
  C9. From every view state, \<open>clearFilters\<close> sets the search term and the stage, type and
  source filters to the empty string, and leaves the sort field, the sort direction and
  the page size as they were.
\<close>

theorem clearFilters_frame:
  "searchTerm (clearFilters S) = '''' \<and> filterStage (clearFilters S) = ''''
   \<and> filterType (clearFilters S) = '''' \<and> filterSource (clearFilters S) = ''''
   \<and> sortField (clearFilters S) = sortField S
   \<and> sortDirection (clearFilters S) = sortDirection S
   \<and> itemsPerPage (clearFilters S) = itemsPerPage S"
  by (simp add: clearFilters_def)

text \<open>
  C10. Each of the handlers for sorting, searching, filtering, clearing the filters and
  changing the page size leaves \<open>currentPage = 1\<close>; and whatever the event, a transition
  that changes the search term, a filter, the sort field, the sort direction or the page
  size ends with \<open>currentPage = 1\<close>.
\<close>

theorem page_reset:
  "currentPage (handleSort fld S) = 1 \<and> currentPage (handleSearch v S) = 1
   \<and> currentPage (handleFilter k v S) = 1 \<and> currentPage (clearFilters S) = 1
   \<and> currentPage (changeItemsPerPage n S) = 1
   \<and> (\<forall>e. searchTerm (step pd ps S e) \<noteq> searchTerm S
          \<or> filterStage (step pd ps S e) \<noteq> filterStage S
          \<or> filterType (step pd ps S e) \<noteq> filterType S
          \<or> filterSource (step pd ps S e) \<noteq> filterSource S
          \<or> sortField (step pd ps S e) \<noteq> sortField S
          \<or> sortDirection (step pd ps S e) \<noteq> sortDirection S
          \<or> itemsPerPage (step pd ps S e) \<noteq> itemsPerPage S
        \<longrightarrow> currentPage (step pd ps S e) = 1)"
proof -
  have "currentPage (handleSort fld S) = 1"
    by (simp add: handleSort_def)
  moreover have "currentPage (handleSearch v S) = 1"
    by (simp add: handleSearch_def)
  moreover have "currentPage (clearFilters S) = 1"
    by (simp add: clearFilters_def)
  moreover have "currentPage (changeItemsPerPage n S) = 1"
    by (simp add: changeItemsPerPage_def)
  ultimately show ?thesis
    using changed_page_one [of pd ps S] by (simp add: handleFilter_page)
qed

theorem page_reset_witness:
  "searchTerm (step (\<lambda>s. None) [] (initialState\<lparr>currentPage := 3\<rparr>) (Search ''acme''))
     \<noteq> searchTerm (initialState\<lparr>currentPage := 3\<rparr>)
   \<and> currentPage (step (\<lambda>s. None) [] (initialState\<lparr>currentPage := 3\<rparr>) (Search ''acme'')) = 1
   \<and> currentPage (initialState\<lparr>currentPage := 3\<rparr>) = 3"
  using page_reset [of K_id "initialState\<lparr>currentPage := 3\<rparr>" "''acme''" FStage 10
      "\<lambda>s. None" "[]"]
  by (simp add: initialState_def handleSearch_def)

text \<open>
  C5. For every list of filtered rows and every positive page size, \<open>totalPages\<close> is the
  ceiling of the count divided by the page size, that is the least number of pages that
  hold all rows, and 0 for no rows; on page \<open>p \<ge> 1\<close> the rows shown are those at the
  offsets from \<open>(p - 1) * size\<close> up to but not including \<open>p * size\<close> that exist in the list.
  With 60 rows and a page size of 25 there are 3 pages, and page 3 shows the 10 rows at
  the offsets 50 to 59.
\<close>

theorem pagination:
  assumes "0 < itemsPerPage S" and "1 \<le> currentPage S"
  shows "totalPages rows (itemsPerPage S) = \<lceil>real (length rows) / real_of_int (itemsPerPage S)\<rceil>
    \<and> int (length rows) \<le> totalPages rows (itemsPerPage S) * itemsPerPage S
    \<and> (totalPages rows (itemsPerPage S) - 1) * itemsPerPage S < int (length rows)
    \<and> totalPages ([] :: Project list) (itemsPerPage S) = 0
    \<and> paginatedProjects rows S =
        map (nth rows) [nat ((currentPage S - 1) * itemsPerPage S) ..<
                        min (nat (currentPage S * itemsPerPage S)) (length rows)]
    \<and> (length rows = 60 \<and> itemsPerPage S = 25 \<longrightarrow>
          totalPages rows (itemsPerPage S) = 3
          \<and> (currentPage S = 3 \<longrightarrow> paginatedProjects rows S = map (nth rows) [50 ..< 60]))"
proof -
  have "length rows = 60 \<and> itemsPerPage S = 25 \<longrightarrow>
          totalPages rows (itemsPerPage S) = 3
          \<and> (currentPage S = 3 \<longrightarrow> paginatedProjects rows S = map (nth rows) [50 ..< 60])"
    using paginatedProjects_nths [OF assms, of rows] by (simp add: totalPages_def)
  then show ?thesis
    using totalPages_bounds [OF assms(1), of rows] paginatedProjects_nths [OF assms, of rows]
    by (simp add: totalPages_def)
qed

theorem pagination_witness:
  "0 < itemsPerPage (initialState\<lparr>currentPage := 3\<rparr>)
   \<and> 1 \<le> currentPage (initialState\<lparr>currentPage := 3\<rparr>)
   \<and> length (map (\<lambda>i. example_project (int i) ''p'') [0 ..< 60]) = 60
   \<and> totalPages (map (\<lambda>i. example_project (int i) ''p'') [0 ..< 60])
        (itemsPerPage (initialState\<lparr>currentPage := 3\<rparr>)) = 3
   \<and> paginatedProjects (map (\<lambda>i. example_project (int i) ''p'') [0 ..< 60])
        (initialState\<lparr>currentPage := 3\<rparr>)
      = map (\<lambda>i. example_project (int i) ''p'') [50 ..< 60]"
proof -
  let ?S = "initialState\<lparr>currentPage := 3\<rparr>"
  let ?rows = "map (\<lambda>i. example_project (int i) ''p'') [0 ..< 60]"
  have h1: "0 < itemsPerPage ?S" and h2: "1 \<le> currentPage ?S"
    by (simp_all add: initialState_def)
  have ipp: "itemsPerPage ?S = 25" and page: "currentPage ?S = 3" and len: "length ?rows = 60"
    by (simp_all add: initialState_def)
  have nths: "map (nth ?rows) [50 ..< 60] = map (\<lambda>i. example_project (int i) ''p'') [50 ..< 60]"
    by (rule map_nth_map_upt) simp
  from pagination [OF h1 h2, of ?rows] len ipp page
  have "totalPages ?rows (itemsPerPage ?S) = 3
        \<and> paginatedProjects ?rows ?S = map (nth ?rows) [50 ..< 60]"
    by blast
  then show ?thesis
    using h1 h2 len nths by simp
qed

text \<open>
  C6, as stated: a project passes the search condition exactly when the lower-cased
  concatenation of every field's sentinel-substituted string value contains the
  lower-cased term. The code differs in three ways. It joins the values with a space, so
  "alphaaustin" is in the concatenation of the name "Alpha" and the location "Austin" and
  is not found by the code. It replaces a value only when it is falsy, so a location of
  one space is not replaced and "specified" is not found in a project whose other fields
  are filled. And it replaces the id 0 as well, so "not specified" is found in a project
  with the id 0 and every text field filled.
\<close>

theorem search_concatenation_counterexample:
  "\<not> matchesSearch ''alphaaustin'' ((example_project 1 ''Alpha'')\<lparr>location := ''Austin''\<rparr>)
   \<and> spec_matchesSearch ''alphaaustin'' ((example_project 1 ''Alpha'')\<lparr>location := ''Austin''\<rparr>)
   \<and> \<not> matchesSearch ''specified'' (filled_project 1 '' '')
   \<and> spec_matchesSearch ''specified'' (filled_project 1 '' '')
   \<and> matchesSearch ''not specified'' (filled_project 0 ''Austin'')
   \<and> \<not> spec_matchesSearch ''not specified'' (filled_project 0 ''Austin'')"
proof -
  have "\<not> matchesSearch ''alphaaustin'' ((example_project 1 ''Alpha'')\<lparr>location := ''Austin''\<rparr>)"
    by code_simp
  moreover have
    "spec_matchesSearch ''alphaaustin'' ((example_project 1 ''Alpha'')\<lparr>location := ''Austin''\<rparr>)"
    by code_simp
  moreover have "\<not> matchesSearch ''specified'' (filled_project 1 '' '')"
    by code_simp
  moreover have "spec_matchesSearch ''specified'' (filled_project 1 '' '')"
    by code_simp
  moreover have "matchesSearch ''not specified'' (filled_project 0 ''Austin'')"
    by code_simp
  moreover have "\<not> spec_matchesSearch ''not specified'' (filled_project 0 ''Austin'')"
    by code_simp
  ultimately show ?thesis
    by blast
qed

text \<open>
  C6, amended: for every project and every search term, the project passes the search
  condition exactly when the lower-cased search term occurs in the lower-cased text made
  of the nine field values in the order id, project_name, location, project_type, stage,
  stakeholders, project_value, date_added, source_link, with a single space between two
  values, where the id 0 and an empty text are replaced by "Not specified" and every
  other value, also a text of white space only, is taken as it is. The empty term passes
  every project, and the term "acme" matches every project whose stakeholders contain
  "Acme".
\<close>

theorem search_condition:
  "(matchesSearch tm project \<longleftrightarrow>
      sublist (toLowerCase tm)
        (toLowerCase
          (let f = (\<lambda>s. if s = [] then ''Not specified'' else s)
           in (if id' project = 0 then ''Not specified'' else string_of_int (id' project))
              @ '' '' @ f (project_name project) @ '' '' @ f (location project)
              @ '' '' @ f (project_type project) @ '' '' @ f (stage project)
              @ '' '' @ f (stakeholders project) @ '' '' @ f (project_value project)
              @ '' '' @ f (date_added project) @ '' '' @ f (source_link project))))
   \<and> matchesSearch [] project
   \<and> (sublist ''Acme'' (stakeholders project) \<longrightarrow> matchesSearch ''acme'' project)"
proof -
  have "join '' '' (map (\<lambda>k. toString (valueOrNotSpecified (field project k))) keys)
        = (let f = (\<lambda>s. if s = [] then ''Not specified'' else s)
           in (if id' project = 0 then ''Not specified'' else string_of_int (id' project))
              @ '' '' @ f (project_name project) @ '' '' @ f (location project)
              @ '' '' @ f (project_type project) @ '' '' @ f (stage project)
              @ '' '' @ f (stakeholders project) @ '' '' @ f (project_value project)
              @ '' '' @ f (date_added project) @ '' '' @ f (source_link project))"
    by (simp add: keys_def valueOrNotSpecified_def NotSpecified_def)
  then have "matchesSearch tm project \<longleftrightarrow>
      sublist (toLowerCase tm)
        (toLowerCase
          (let f = (\<lambda>s. if s = [] then ''Not specified'' else s)
           in (if id' project = 0 then ''Not specified'' else string_of_int (id' project))
              @ '' '' @ f (project_name project) @ '' '' @ f (location project)
              @ '' '' @ f (project_type project) @ '' '' @ f (stage project)
              @ '' '' @ f (stakeholders project) @ '' '' @ f (project_value project)
              @ '' '' @ f (date_added project) @ '' '' @ f (source_link project)))"
    by (simp only: matchesSearch_sublist)
  moreover have "matchesSearch [] project"
    using matchesSearch_sublist [of "[]" project] by (simp add: toLowerCase_def)
  ultimately show ?thesis
    using acme_in_stakeholders [of project] by blast
qed

theorem search_condition_witness:
  "sublist ''Acme''
     (stakeholders ((example_project 7 ''Bridge'')\<lparr>stakeholders := ''City; Acme Corp''\<rparr>))
   \<and> matchesSearch ''acme''
       ((example_project 7 ''Bridge'')\<lparr>stakeholders := ''City; Acme Corp''\<rparr>)
   \<and> \<not> sublist ''acme''
       (toLowerCase
         (project_name ((example_project 7 ''Bridge'')\<lparr>stakeholders := ''City; Acme Corp''\<rparr>)))"
proof -
  let ?p = "(example_project 7 ''Bridge'')\<lparr>stakeholders := ''City; Acme Corp''\<rparr>"
  have h: "sublist ''Acme'' (stakeholders ?p)"
    by code_simp
  have n: "\<not> sublist ''acme'' (toLowerCase (project_name ?p))"
    by code_simp
  from search_condition [of "''acme''" ?p] h n show ?thesis
    by blast
qed

text \<open>
  C1 says that for every sort field and both directions a record whose sort value is
  missing is placed after every record whose value is present. Sorting by
  \<open>project_name\<close>, descending: the record with the empty name is missing, the record
  named "Alpha" is present, the comparator returns \<open>-1\<close> for (missing, present), and the
  sorted list has the missing record first.
\<close>

theorem missing_first_when_descending:
  "spec_missing pd K_project_name (example_project 1 [])
   \<and> \<not> spec_missing pd K_project_name (example_project 2 ''Alpha'')
   \<and> compareProjects pd K_project_name Desc
        (example_project 1 []) (example_project 2 ''Alpha'') = - 1
   \<and> filteredAndSortedProjects pd [example_project 2 ''Alpha'', example_project 1 []]
        (initialState\<lparr>sortField := K_project_name\<rparr>)
      = [example_project 1 [], example_project 2 ''Alpha'']"
proof -
  have "spec_missing pd K_project_name (example_project 1 [])"
    by (simp add: spec_missing_def example_project_def)
  moreover have "\<not> spec_missing pd K_project_name (example_project 2 ''Alpha'')"
    by (simp add: spec_missing_def example_project_def NotSpecified_def trim_def is_ws_def)
  moreover have "compareProjects pd K_project_name Desc
      (example_project 1 []) (example_project 2 ''Alpha'') = - 1"
    by code_simp
  moreover have "filteredAndSortedProjects pd
      [example_project 2 ''Alpha'', example_project 1 []]
      (initialState\<lparr>sortField := K_project_name\<rparr>)
      = [example_project 1 [], example_project 2 ''Alpha'']"
    by code_simp
  ultimately show ?thesis by blast
qed

text \<open>
  C4, as stated: every text field of a CSV row is sentinel-substituted, then quoted. The
  sentinel rule of the specification covers a field of white space only; the code
  replaces the empty text only. A location of one space is written as a quoted space,
  where the wording gives a quoted "Not specified", so the row of the project differs.
\<close>

theorem csv_whitespace_counterexample:
  "csv_quote '' '' = [CHR 0x22, CHR '' '', CHR 0x22]
   \<and> spec_csv_field '' '' = [CHR 0x22] @ ''Not specified'' @ [CHR 0x22]
   \<and> csv_row (\<lambda>s. None) (\<lambda>t. []) (filled_project 1 '' '')
       \<noteq> spec_csv_row (\<lambda>s. None) (\<lambda>t. []) (filled_project 1 '' '')"
proof -
  have "csv_quote '' '' = [CHR 0x22, CHR '' '', CHR 0x22]"
    by code_simp
  moreover have "spec_csv_field '' '' = [CHR 0x22] @ ''Not specified'' @ [CHR 0x22]"
    by code_simp
  moreover have "csv_row (\<lambda>s. None) (\<lambda>t. []) (filled_project 1 '' '')
       \<noteq> spec_csv_row (\<lambda>s. None) (\<lambda>t. []) (filled_project 1 '' '')"
    by code_simp
  ultimately show ?thesis
    by blast
qed

text \<open>
  C4, amended: the CSV export is the header row
  \<open>ID,Project Name,Location,Project Type,Stage,Stakeholders,Project Value,Source Link,Date Added\<close>
  followed, for each project in the order of the input, by a line feed and the row of the
  project: the id as a bare number, then each of the seven text fields project_name,
  location, project_type, stage, stakeholders, project_value and source_link, replaced by
  "Not specified" when it is the empty text and taken as it is otherwise (also when it is
  white space only), with every double quote doubled and the whole wrapped in double
  quotes, then the date, which is "Not specified" when \<open>date_added\<close> is empty or white
  space only or does not parse, and the locale-formatted date otherwise. The stakeholders
  \<open>Acme, "Bob" Co\<close> are written as \<open>"Acme, ""Bob"" Co"\<close>.
\<close>

theorem csv_export:
  "join '','' csv_headers =
     ''ID,Project Name,Location,Project Type,Stage,Stakeholders,Project Value,Source Link,Date Added''
   \<and> convertToCSV pd fmt data =
       join '','' csv_headers @ concat (map (\<lambda>p. CHR 0x0A # csv_row pd fmt p) data)
   \<and> csv_row pd fmt p =
       string_of_int (id' p) @ '','' @ csv_quote (project_name p) @ '','' @ csv_quote (location p)
       @ '','' @ csv_quote (project_type p) @ '','' @ csv_quote (stage p)
       @ '','' @ csv_quote (stakeholders p) @ '','' @ csv_quote (project_value p)
       @ '','' @ csv_quote (source_link p) @ '','' @ dateCell pd fmt (date_added p)
   \<and> csv_quote s =
       [CHR 0x22]
       @ concat (map (\<lambda>c. if c = CHR 0x22 then [CHR 0x22, CHR 0x22] else [c])
           (if s = [] then ''Not specified'' else s))
       @ [CHR 0x22]
   \<and> csv_quote (''Acme, '' @ [CHR 0x22] @ ''Bob'' @ [CHR 0x22] @ '' Co'') =
       [CHR 0x22] @ ''Acme, '' @ [CHR 0x22, CHR 0x22] @ ''Bob'' @ [CHR 0x22, CHR 0x22] @ '' Co''
       @ [CHR 0x22]
   \<and> dateCell pd fmt d =
       (if trim d = [] then ''Not specified''
        else case pd d of None \<Rightarrow> ''Not specified'' | Some t \<Rightarrow> fmt t)"
proof -
  have "join '','' csv_headers =
     ''ID,Project Name,Location,Project Type,Stage,Stakeholders,Project Value,Source Link,Date Added''"
    by (simp add: csv_headers_def)
  moreover have "convertToCSV pd fmt data =
       join '','' csv_headers @ concat (map (\<lambda>p. CHR 0x0A # csv_row pd fmt p) data)"
    by (simp add: convertToCSV_def join_Cons newline_def comp_def)
  moreover have "csv_row pd fmt p =
       string_of_int (id' p) @ '','' @ csv_quote (project_name p) @ '','' @ csv_quote (location p)
       @ '','' @ csv_quote (project_type p) @ '','' @ csv_quote (stage p)
       @ '','' @ csv_quote (stakeholders p) @ '','' @ csv_quote (project_value p)
       @ '','' @ csv_quote (source_link p) @ '','' @ dateCell pd fmt (date_added p)"
    by (simp add: csv_row_def)
  moreover have q: "csv_quote s =
       [CHR 0x22]
       @ concat (map (\<lambda>c. if c = CHR 0x22 then [CHR 0x22, CHR 0x22] else [c])
           (if s = [] then ''Not specified'' else s))
       @ [CHR 0x22]" for s
    by (simp add: csv_quote_def replace_quotes_concat orNotSpecified_def NotSpecified_def dq_def)
  moreover have "csv_quote (''Acme, '' @ [CHR 0x22] @ ''Bob'' @ [CHR 0x22] @ '' Co'') =
       [CHR 0x22] @ ''Acme, '' @ [CHR 0x22, CHR 0x22] @ ''Bob'' @ [CHR 0x22, CHR 0x22] @ '' Co''
       @ [CHR 0x22]"
    by (simp add: q)
  moreover have "dateCell pd fmt d =
       (if trim d = [] then ''Not specified''
        else case pd d of None \<Rightarrow> ''Not specified'' | Some t \<Rightarrow> fmt t)"
    unfolding dateCell_def NotSpecified_def by (auto simp: trim_def)
  ultimately show ?thesis
    by blast
qed

text \<open>
  C3 says that every body row of the HTML export has exactly one cell per header column,
  in the header's order, with no leading id cell. The header has 8 columns; every body
  row has 9 cells, the first of which is the id, so the project name stands under the
  header "Location". On the row rendered for a project there are 9 \<open><td>\<close> tags, and 8
  \<open><th>\<close> tags in the header row.
\<close>

theorem html_row_has_leading_id_cell:
  "length (html_row_cells pd fmt p) = 9 \<and> length html_headers = 8
   \<and> hd (html_row_cells pd fmt p) = string_of_int (id' p)
   \<and> html_row_cells pd fmt p ! 1 = orNotSpecified (project_name p)
   \<and> occurrences ''<td>'' (html_row pd fmt (example_project 1 ''Alpha'')) = 9
   \<and> occurrences ''<th>'' html_head_row = 8"
proof -
  have "occurrences ''<td>'' (html_row pd fmt (example_project 1 ''Alpha'')) = 9"
    by code_simp
  moreover have "occurrences ''<th>'' html_head_row = 8"
    by code_simp
  ultimately show ?thesis
    by (simp add: html_row_cells_def html_headers_def)
qed

text \<open>
  C7. For every project list, parsing the text of the JSON export gives back the array
  of the project objects, each with its nine fields and their values as given, and
  reading the fields of these objects gives back the projects. The export is the
  pretty-printed array of the records with no sentinel substitution: a project whose text
  fields are all empty is written with nine members, each empty field as \<open>""\<close>.
\<close>

theorem json_round_trip:
  "JSON_parse (exportToJSON data) = Some (JArr (map project_json data))
   \<and> map project_of_json (map project_json data) = map Some data
   \<and> exportToJSON [example_project 7 []] =
       (let q = [CHR 0x22]; n = [CHR 0x0A]
        in ''['' @ n
           @ ''  {'' @ n
           @ ''    '' @ q @ ''id'' @ q @ '': 7,'' @ n
           @ ''    '' @ q @ ''project_name'' @ q @ '': '' @ q @ q @ '','' @ n
           @ ''    '' @ q @ ''location'' @ q @ '': '' @ q @ q @ '','' @ n
           @ ''    '' @ q @ ''project_type'' @ q @ '': '' @ q @ q @ '','' @ n
           @ ''    '' @ q @ ''stage'' @ q @ '': '' @ q @ q @ '','' @ n
           @ ''    '' @ q @ ''stakeholders'' @ q @ '': '' @ q @ q @ '','' @ n
           @ ''    '' @ q @ ''project_value'' @ q @ '': '' @ q @ q @ '','' @ n
           @ ''    '' @ q @ ''date_added'' @ q @ '': '' @ q @ q @ '','' @ n
           @ ''    '' @ q @ ''source_link'' @ q @ '': '' @ q @ q @ n
           @ ''  }'' @ n
           @ '']'')"
proof -
  have "map project_of_json (map project_json data) = map Some data"
    by (simp add: project_of_json_project_json comp_def)
  moreover have "exportToJSON [example_project 7 []] =
       (let q = [CHR 0x22]; n = [CHR 0x0A]
        in ''['' @ n
           @ ''  {'' @ n
           @ ''    '' @ q @ ''id'' @ q @ '': 7,'' @ n
           @ ''    '' @ q @ ''project_name'' @ q @ '': '' @ q @ q @ '','' @ n
           @ ''    '' @ q @ ''location'' @ q @ '': '' @ q @ q @ '','' @ n
           @ ''    '' @ q @ ''project_type'' @ q @ '': '' @ q @ q @ '','' @ n
           @ ''    '' @ q @ ''stage'' @ q @ '': '' @ q @ q @ '','' @ n
           @ ''    '' @ q @ ''stakeholders'' @ q @ '': '' @ q @ q @ '','' @ n
           @ ''    '' @ q @ ''project_value'' @ q @ '': '' @ q @ q @ '','' @ n
           @ ''    '' @ q @ ''date_added'' @ q @ '': '' @ q @ q @ '','' @ n
           @ ''    '' @ q @ ''source_link'' @ q @ '': '' @ q @ q @ n
           @ ''  }'' @ n
           @ '']'')"
    by code_simp
  ultimately show ?thesis
    using JSON_parse_export [of data] by blast
qed

end
